theory Spec2Isabelle
  imports Complex_Main "HOL-Library.Char_ord" "HOL-Library.List_Lexorder"
    "HOL-Library.Product_Lexorder"
begin

section \<open>Outcomes of the script\<close>

text \<open>
  The script \<^verbatim>\<open>scripts/combine_results.py\<close> raises Python exceptions; a function of the
  model returns \<open>Inl\<close> of the exception where the source raises and \<open>Inr\<close> of the value
  where it returns. \<open>CvError\<close> is OpenCV's \<^verbatim>\<open>cv2.error\<close>.
\<close>

datatype error =
    FileNotFoundError
  | ValueError
  | IndexError
  | NameError
  | TypeError
  | CvError
  | IOError
  | ZeroDivisionError

text \<open>Running a fallible function over a list, left to right, stopping at the first
  exception (a \<^verbatim>\<open>for\<close> loop or comprehension whose body may raise).\<close>

fun map_err :: "('a \<Rightarrow> error + 'b) \<Rightarrow> 'a list \<Rightarrow> error + 'b list" where
  "map_err f [] = Inr []"
| "map_err f (x # xs) =
     (case f x of
        Inl e \<Rightarrow> Inl e
      | Inr y \<Rightarrow> (case map_err f xs of Inl e \<Rightarrow> Inl e | Inr ys \<Rightarrow> Inr (y # ys)))"

section \<open>Images\<close>

text \<open>
  An image is a numpy array of shape \<open>(height, width, 3)\<close>. The model keeps the first two
  components of the shape (all the script ever inspects) and, in place of the pixel
  values, the way the array was obtained: read from a file, channel-swapped, resampled or
  stacked. Resampling is floating-point interpolation inside OpenCV and is not computed.
\<close>

datatype pixels =
    Decoded string
  | SwapRB pixels
  | Resampled pixels
  | HStack "pixels list"

record image =
  height :: nat
  width :: nat
  pix :: pixels

text \<open>\<^verbatim>\<open>image.shape[:2]\<close>\<close>

definition shape :: "image \<Rightarrow> nat \<times> nat" where
  "shape img = (height img, width img)"

text \<open>
  \<^verbatim>\<open>cv2.resize(src, dsize)\<close>: OpenCV reads \<open>dsize\<close> as \<open>(width, height)\<close>, so the result has
  shape \<open>(snd dsize, fst dsize)\<close>. An empty source or an empty target size is rejected by
  an assertion.
\<close>

definition cv2_resize :: "image \<Rightarrow> nat \<times> nat \<Rightarrow> error + image" where
  "cv2_resize src dsize =
     (if height src = 0 \<or> width src = 0 \<or> fst dsize = 0 \<or> snd dsize = 0 then Inl CvError
      else Inr \<lparr>height = snd dsize, width = fst dsize, pix = Resampled (pix src)\<rparr>)"

text \<open>
  \<^verbatim>\<open>np.concatenate(arrays, axis=1)\<close>: at least one array, and all must agree on every
  axis but the second; the widths add up.
\<close>

definition np_concatenate_axis1 :: "image list \<Rightarrow> error + image" where
  "np_concatenate_axis1 arrays =
     (case arrays of
        [] \<Rightarrow> Inl ValueError
      | a # rest \<Rightarrow>
          if list_all (\<lambda>b. height b = height a) rest
          then Inr \<lparr>height = height a, width = sum_list (map width arrays),
                    pix = HStack (map pix arrays)\<rparr>
          else Inl ValueError)"

text \<open>
  \<^verbatim>\<open>zip(*xss)\<close>: each round takes the next element of every list; the iteration stops as
  soon as one list is exhausted, and yields nothing when there is no list at all.
  \<open>next_all\<close> is one such round.
\<close>

fun next_all :: "'a list list \<Rightarrow> ('a list \<times> 'a list list) option" where
  "next_all [] = Some ([], [])"
| "next_all ([] # xss) = None"
| "next_all ((x # xs) # xss) =
     (case next_all xss of None \<Rightarrow> None | Some (hs, ts) \<Rightarrow> Some (x # hs, xs # ts))"

function zip_star :: "'a list list \<Rightarrow> 'a list list" where
  "zip_star [] = []"
| "zip_star (xs # xss) =
     (case next_all (xs # xss) of None \<Rightarrow> [] | Some (hs, ts) \<Rightarrow> hs # zip_star ts)"
  by pat_completeness auto
termination
proof -
  have smaller: "sum_list (map length ts) < sum_list (map length xss)"
    if "next_all xss = Some (hs, ts)" and "xss \<noteq> []"
    for xss :: "'a list list" and hs ts
    using that
  proof (induction xss arbitrary: hs ts rule: next_all.induct)
    case 1
    then show ?case by simp
  next
    case (2 xss)
    then show ?case by simp
  next
    case (3 x xs xss)
    then obtain hs' ts' where nx: "next_all xss = Some (hs', ts')" and ts: "ts = xs # ts'"
      by (auto split: option.splits)
    show ?case
    proof (cases "xss = []")
      case True
      with nx ts show ?thesis by simp
    next
      case False
      with "3.IH" [OF nx] ts show ?thesis by simp
    qed
  qed
  show ?thesis
    by (relation "measure (\<lambda>xss. sum_list (map length xss))")
       (auto dest: smaller simp del: next_all.simps)
qed

section \<open>FrameCompositor: \<^verbatim>\<open>concat_images\<close>\<close>

text \<open>Lines 89-96: the running minimum, unset (\<^verbatim>\<open>None\<close>) until the first image.\<close>

fun min_shape_step :: "image \<Rightarrow> (nat \<times> nat) option \<Rightarrow> (nat \<times> nat) option" where
  "min_shape_step img None = Some (shape img)"
| "min_shape_step img (Some (min_height, min_width)) =
     Some (min min_height (height img), min min_width (width img))"

definition min_shape :: "image list list \<Rightarrow> (nat \<times> nat) option" where
  "min_shape all_images = fold (\<lambda>all_image m. fold min_shape_step all_image m) all_images None"

text \<open>Lines 98-101. The closure is only ever called on an image that the loop above has
  seen, so the minimum is set; with an unset minimum \<^verbatim>\<open>cv2.resize\<close> would reject the
  size \<^verbatim>\<open>(None, None)\<close>.\<close>

fun maybe_resize :: "(nat \<times> nat) option \<Rightarrow> image \<Rightarrow> error + image" where
  "maybe_resize None img = Inl TypeError"
| "maybe_resize (Some (min_height, min_width)) img =
     (if shape img = (min_height, min_width) then Inr img
      else cv2_resize img (min_height, min_width))"

definition concat_images :: "image list list \<Rightarrow> error + image list" where
  "concat_images all_images =
     (let m = min_shape all_images in
      case map_err (map_err (maybe_resize m)) all_images of
        Inl e \<Rightarrow> Inl e
      | Inr resized_all_images \<Rightarrow> map_err np_concatenate_axis1 (zip_star resized_all_images))"

text \<open>A decoded frame of the given shape, as \<^verbatim>\<open>cv2.imread\<close> returns it for the file
  \<open>name\<close>; used to write down concrete inputs.\<close>

definition frame :: "nat \<Rightarrow> nat \<Rightarrow> string \<Rightarrow> image" where
  "frame h w name = \<lparr>height = h, width = w, pix = Decoded name\<rparr>"

section \<open>ImageSequenceIO: \<^verbatim>\<open>load_images\<close>\<close>

text \<open>
  \<^verbatim>\<open>cv2.imread\<close> raises nothing: for a path that names no file (or a file it cannot
  decode) it returns \<^verbatim>\<open>None\<close>. The function is given as an argument \<open>imread\<close>, the view
  OpenCV has of the disk. \<^verbatim>\<open>cv2.cvtColor(src, cv2.COLOR_BGR2RGB)\<close> swaps the first and
  third channel and keeps the shape; on \<^verbatim>\<open>None\<close> its assertion raises \<^verbatim>\<open>cv2.error\<close>.
\<close>

definition cv2_cvtColor_BGR2RGB :: "image option \<Rightarrow> error + image" where
  "cv2_cvtColor_BGR2RGB src =
     (case src of None \<Rightarrow> Inl CvError | Some img \<Rightarrow> Inr (img\<lparr>pix := SwapRB (pix img)\<rparr>))"

text \<open>Lines 21-27; the third argument is the list \<^verbatim>\<open>images\<close> built so far.\<close>

fun load_images_loop ::
  "(string \<Rightarrow> image option) \<Rightarrow> string list \<Rightarrow> image list \<Rightarrow> error + image list" where
  "load_images_loop imread [] images = Inr images"
| "load_images_loop imread (image_fname # image_fnames) images =
     (case cv2_cvtColor_BGR2RGB (imread image_fname) of
        Inl e \<Rightarrow> Inl e
      | Inr img \<Rightarrow> load_images_loop imread image_fnames (images @ [img]))"

definition load_images :: "(string \<Rightarrow> image option) \<Rightarrow> string list \<Rightarrow> error + image list" where
  "load_images imread image_fnames = load_images_loop imread image_fnames []"

section \<open>MetricStore: \<^verbatim>\<open>load_metrics\<close>\<close>

text \<open>
  The table file is seen through two library calls, both arguments of the model:
  \<open>read_csv path\<close> is the list of rows that \<^verbatim>\<open>csv.reader(f, delimiter='\t', quotechar='|')\<close>
  yields for the file at \<open>path\<close> (\<open>None\<close> when \<^verbatim>\<open>open\<close> finds no file), and \<open>float32 s\<close> is
  the value that \<^verbatim>\<open>astype(np.float32)\<close> reads from the cell \<open>s\<close> (\<open>None\<close> when the cell is
  no number). The model does not look into these values: their type is a parameter.

  \<^verbatim>\<open>np.array(rows)\<close> of rows of unequal length raises; of no rows at all it is the
  one-dimensional empty array, on which the two-dimensional index of line 17 raises.
\<close>

definition np_array :: "string list list \<Rightarrow> error + string list list" where
  "np_array rows =
     (case rows of
        [] \<Rightarrow> Inr []
      | r # rs \<Rightarrow> if list_all (\<lambda>r'. length r' = length r) rs then Inr rows else Inl ValueError)"

text \<open>The Python slices \<^verbatim>\<open>[1:]\<close> and \<^verbatim>\<open>[1:-1]\<close> of a sequence.\<close>

definition slice_from1 :: "'a list \<Rightarrow> 'a list" where
  "slice_from1 xs = drop 1 xs"

definition slice_1_to_last :: "'a list \<Rightarrow> 'a list" where
  "slice_1_to_last xs = drop 1 (take (length xs - 1) xs)"

definition index_rows_cols :: "string list list \<Rightarrow> error + string list list" where
  "index_rows_cols arr =
     (if arr = [] then Inl IndexError else Inr (map slice_1_to_last (slice_from1 arr)))"

definition astype_float32 :: "(string \<Rightarrow> 'a option) \<Rightarrow> string \<Rightarrow> error + 'a" where
  "astype_float32 float32 cell = (case float32 cell of None \<Rightarrow> Inl ValueError | Some v \<Rightarrow> Inr v)"

text \<open>Lines 11-18.\<close>

definition load_metrics ::
  "(string \<Rightarrow> string list list option) \<Rightarrow> (string \<Rightarrow> 'a option) \<Rightarrow> string \<Rightarrow>
     error + 'a list list" where
  "load_metrics read_csv float32 prefix_fname =
     (case read_csv (prefix_fname @ ''.csv'') of
        None \<Rightarrow> Inl FileNotFoundError
      | Some rows \<Rightarrow>
          (case np_array rows of
             Inl e \<Rightarrow> Inl e
           | Inr arr \<Rightarrow>
               (case index_rows_cols arr of
                  Inl e \<Rightarrow> Inl e
                | Inr cells \<Rightarrow> map_err (map_err (astype_float32 float32)) cells)))"

section \<open>Method discovery\<close>

text \<open>Lines 136-139: one round of the loop over \<^verbatim>\<open>['ground_truth', 'repeat']\<close>, on the pair
  of \<^verbatim>\<open>unsorted_method_dirs\<close> and \<^verbatim>\<open>method_dirs\<close>. \<^verbatim>\<open>list.remove\<close> deletes the first
  occurrence.\<close>

fun front_step :: "string \<Rightarrow> string list \<times> string list \<Rightarrow> string list \<times> string list" where
  "front_step first_method_dir (unsorted_method_dirs, method_dirs) =
     (if first_method_dir \<in> set unsorted_method_dirs
      then (remove1 first_method_dir unsorted_method_dirs, method_dirs @ [first_method_dir])
      else (unsorted_method_dirs, method_dirs))"

text \<open>Lines 131-140, from the result of \<^verbatim>\<open>os.listdir(args.results_dir)\<close>. \<^verbatim>\<open>sorted\<close> orders
  strings by code point, as the lexicographic order on \<open>string\<close> does.\<close>

definition default_method_dirs :: "string list \<Rightarrow> string list" where
  "default_method_dirs listing =
     (let unsorted_method_dirs =
            (if ''web'' \<in> set listing then remove1 ''web'' listing else listing);
          (unsorted_method_dirs, method_dirs) =
            fold front_step [''ground_truth'', ''repeat''] (unsorted_method_dirs, [])
      in method_dirs @ sort unsorted_method_dirs)"

section \<open>MetricsAggregator: statistics and sorting\<close>

text \<open>
  The values of numpy's floating-point types: the finite ones, each given by the real
  number it denotes, the two infinities and NaN. \<^verbatim>\<open>np.mean\<close>, \<^verbatim>\<open>np.std\<close>, \<^verbatim>\<open>np.sqrt\<close> and the division of line 196 are
  library calls on such values, rounded inside numpy; the model takes them as arguments
  and computes none of them.
\<close>

datatype np_float =
    Finite real
  | PosInf
  | NegInf
  | NaN

text \<open>Python's \<^verbatim>\<open><\<close>, \<^verbatim>\<open>==\<close> and \<^verbatim>\<open><=\<close> on these values: every comparison with NaN is false.\<close>

fun float_lt :: "np_float \<Rightarrow> np_float \<Rightarrow> bool" where
  "float_lt (Finite a) (Finite b) = (a < b)"
| "float_lt (Finite a) PosInf = True"
| "float_lt NegInf (Finite b) = True"
| "float_lt NegInf PosInf = True"
| "float_lt a b = False"

fun float_eq :: "np_float \<Rightarrow> np_float \<Rightarrow> bool" where
  "float_eq (Finite a) (Finite b) = (a = b)"
| "float_eq PosInf PosInf = True"
| "float_eq NegInf NegInf = True"
| "float_eq a b = False"

definition float_le :: "np_float \<Rightarrow> np_float \<Rightarrow> bool" where
  "float_le a b = (float_lt a b \<or> float_eq a b)"

text \<open>\<^verbatim>\<open>os.path.join\<close> on POSIX, for two and for four components.\<close>

definition os_path_join :: "string \<Rightarrow> string \<Rightarrow> string" where
  "os_path_join path b =
     (if take 1 b = ''/'' then b
      else if path = [] \<or> last path = CHR ''/'' then path @ b
      else path @ ''/'' @ b)"

definition os_path_join4 :: "string \<Rightarrow> string \<Rightarrow> string \<Rightarrow> string \<Rightarrow> string" where
  "os_path_join4 a b c d = os_path_join (os_path_join (os_path_join a b) c) d"

text \<open>Lines 153-154: the sort criterion of one method; \<open>np_mean\<close> is \<^verbatim>\<open>np.mean\<close>.\<close>

definition sort_criterion_of ::
  "(string \<Rightarrow> string list list option) \<Rightarrow> (string \<Rightarrow> np_float option) \<Rightarrow>
     (np_float list list \<Rightarrow> np_float) \<Rightarrow> string \<Rightarrow> string \<Rightarrow>
     string \<times> string \<Rightarrow> error + np_float" where
  "sort_criterion_of read_csv float32 np_mean task_name metric_name method =
     (case method of (method_name, method_dir) \<Rightarrow>
        (case load_metrics read_csv float32
                (os_path_join4 method_dir task_name ''metrics'' metric_name) of
           Inl e \<Rightarrow> Inl e
         | Inr metric \<Rightarrow> Inr (np_mean metric)))"

text \<open>
  The tuples \<open>(criterion, index, name, dir)\<close> of line 156 and Python's \<^verbatim>\<open><\<close> on them: the
  first components decide unless they are equal, then the rest decides, in
  lexicographic order.
\<close>

type_synonym sort_tuple = "np_float \<times> nat \<times> string \<times> string"

definition tuple_lt :: "sort_tuple \<Rightarrow> sort_tuple \<Rightarrow> bool" where
  "tuple_lt s t =
     (if float_eq (fst s) (fst t) then snd s < snd t else float_lt (fst s) (fst t))"

text \<open>
  \<^verbatim>\<open>sorted\<close> on such tuples. Without a NaN criterion Python's \<^verbatim>\<open><\<close> is a linear order on
  them, the one of the keys \<open>sort_key_of\<close>, and \<^verbatim>\<open>sorted\<close> returns the stable sorted
  arrangement. With a NaN criterion the comparisons form no order, and the result is
  what the run detection and the merges of CPython's \<^verbatim>\<open>list.sort\<close> make of them, which
  differs between versions of the interpreter. One case is the same in all of them: a
  list in which no element is smaller than its predecessor is taken for one ascending
  run and returned as it is. Every other list with a NaN criterion is left to the
  argument \<open>list_sort\<close>.
\<close>

fun float_key :: "np_float \<Rightarrow> int \<times> real" where
  "float_key NegInf = (- 1, 0)"
| "float_key (Finite a) = (0, a)"
| "float_key PosInf = (1, 0)"
| "float_key NaN = (2, 0)"

definition sort_key_of :: "sort_tuple \<Rightarrow> (int \<times> real) \<times> nat \<times> string \<times> string" where
  "sort_key_of t = (float_key (fst t), snd t)"

definition ascending_run :: "sort_tuple list \<Rightarrow> bool" where
  "ascending_run xs = list_all (\<lambda>(s, t). \<not> tuple_lt t s) (zip xs (tl xs))"

definition py_sorted ::
  "(sort_tuple list \<Rightarrow> sort_tuple list) \<Rightarrow> sort_tuple list \<Rightarrow> sort_tuple list" where
  "py_sorted list_sort xs =
     (if list_ex (\<lambda>t. fst t = NaN) xs
      then (if ascending_run xs then xs else list_sort xs)
      else sort_key sort_key_of xs)"

text \<open>
  Lines 150-156. Unpacking \<^verbatim>\<open>zip(*[])\<close> into four names raises \<^verbatim>\<open>ValueError\<close>.
\<close>

definition sort_methods ::
  "(string \<Rightarrow> string list list option) \<Rightarrow> (string \<Rightarrow> np_float option) \<Rightarrow>
     (np_float list list \<Rightarrow> np_float) \<Rightarrow> (sort_tuple list \<Rightarrow> sort_tuple list) \<Rightarrow>
     string \<Rightarrow> string \<Rightarrow> string list \<Rightarrow> string list \<Rightarrow>
     error + (np_float list \<times> nat list \<times> string list \<times> string list)" where
  "sort_methods read_csv float32 np_mean list_sort task_name metric_name method_names
       method_dirs =
     (case map_err (sort_criterion_of read_csv float32 np_mean task_name metric_name)
             (zip method_names method_dirs) of
        Inl e \<Rightarrow> Inl e
      | Inr sort_criterion \<Rightarrow>
          (let rows = py_sorted list_sort
                        (zip sort_criterion
                           (zip [0..<length method_names] (zip method_names method_dirs)))
           in if rows = [] then Inl ValueError
              else Inr (map fst rows, map (fst \<circ> snd) rows,
                        map (fst \<circ> snd \<circ> snd) rows, map (snd \<circ> snd \<circ> snd) rows)))"

text \<open>
  Concrete tables: three methods \<open>a\<close>, \<open>b\<close>, \<open>c\<close> under \<open>r\<close>, each with one sample and one
  trial of the metric \<open>mse\<close> of the task \<open>prediction\<close>. \<open>decimal_cells\<close> reads the cells as
  \<^verbatim>\<open>astype(np.float32)\<close> does: \<^verbatim>\<open>0.5\<close> is a number of the format, \<^verbatim>\<open>0.2\<close> is not and
  becomes the nearest one, 13421773 / 2^26. \<open>single_cell_mean\<close> is \<^verbatim>\<open>np.mean\<close> on the
  matrices of these tables, which have one cell: the mean is that cell (the sum of one
  cell is the cell, and the division by one is exact). In the second set of tables the cell of \<open>b\<close>
  is \<^verbatim>\<open>nan\<close>. None of the examples reaches the case that \<open>py_sorted\<close> leaves to its
  argument, for which \<open>unconsulted_sort\<close> stands.
\<close>

definition one_cell_table :: "string \<Rightarrow> string list list" where
  "one_cell_table v = [[''id'', ''t0'', ''mean''], [''0'', v, v]]"

definition three_methods_csv :: "string \<Rightarrow> string list list option" where
  "three_methods_csv =
     [''r/a/prediction/metrics/mse.csv'' \<mapsto> one_cell_table ''0.5'',
      ''r/b/prediction/metrics/mse.csv'' \<mapsto> one_cell_table ''0.2'',
      ''r/c/prediction/metrics/mse.csv'' \<mapsto> one_cell_table ''0.2'']"

definition nan_method_csv :: "string \<Rightarrow> string list list option" where
  "nan_method_csv =
     [''r/a/prediction/metrics/mse.csv'' \<mapsto> one_cell_table ''0.5'',
      ''r/b/prediction/metrics/mse.csv'' \<mapsto> one_cell_table ''nan'',
      ''r/c/prediction/metrics/mse.csv'' \<mapsto> one_cell_table ''0.2'']"

definition decimal_cells :: "string \<Rightarrow> np_float option" where
  "decimal_cells =
     [''0.5'' \<mapsto> Finite 0.5, ''0.2'' \<mapsto> Finite (13421773 / 67108864), ''nan'' \<mapsto> NaN]"

definition single_cell_mean :: "np_float list list \<Rightarrow> np_float" where
  "single_cell_mean a = (case concat a of [x] \<Rightarrow> x | _ \<Rightarrow> NaN)"

definition unconsulted_sort :: "sort_tuple list \<Rightarrow> sort_tuple list" where
  "unconsulted_sort xs = []"

section \<open>The report renderer\<close>

text \<open>
  Modelled from the spec: the class \<^verbatim>\<open>video_prediction.html.HTML\<close> is not among the
  sources. Section 6 of the specification gives its interface (a heading, the start of a
  table, a row of cells with optional column spans, a row of images with captions and
  links, and persisting the document), every call side-effecting and with no return
  contract beyond success. The model records the calls in order.
\<close>

datatype cell =
    NoneCell
  | Str string
  | IntCell nat
  | Fixed4 np_float

datatype event =
    NewPage string string
  | AddHeader1 string
  | AddHeader3 string
  | AddTable
  | AddRow "cell list" "nat list option"
  | AddImages "cell list" "cell list" "cell list"
  | Save

text \<open>\<open>Fixed4 v\<close> is the text \<^verbatim>\<open>'%.4f' % v\<close>; \<open>NewPage web_dir title\<close> is the construction
  \<^verbatim>\<open>html.HTML(web_dir, title, reflesh=1)\<close>.\<close>

section \<open>Strings and paths\<close>

text \<open>\<^verbatim>\<open>s.rfind(c)\<close>: the index of the last occurrence, or \<open>-1\<close>.\<close>

definition py_rfind :: "char \<Rightarrow> string \<Rightarrow> int" where
  "py_rfind c s =
     (if c \<in> set s then int (length s) - 1 - int (length (takeWhile (\<lambda>x. x \<noteq> c) (rev s)))
      else - 1)"

text \<open>\<^verbatim>\<open>s.split(c)\<close>: the pieces between the occurrences of \<open>c\<close>, at least one.\<close>

fun py_split :: "char \<Rightarrow> string \<Rightarrow> string list" where
  "py_split c [] = [[]]"
| "py_split c (x # xs) =
     (if x = c then [] # py_split c xs
      else (case py_split c xs of w # ws \<Rightarrow> (x # w) # ws | [] \<Rightarrow> [[x]]))"

text \<open>\<^verbatim>\<open>str(n)\<close> and \<^verbatim>\<open>'%05d' % n\<close> of a natural number.\<close>

fun py_str :: "nat \<Rightarrow> string" where
  "py_str n =
     (if n < 10 then [''0123456789'' ! n]
      else py_str (n div 10) @ [''0123456789'' ! (n mod 10)])"

declare py_str.simps [simp del]

definition fmt_05d :: "nat \<Rightarrow> string" where
  "fmt_05d n = take (5 - length (py_str n)) ''00000'' @ py_str n"

text \<open>\<^verbatim>\<open>','.join(xs)\<close>.\<close>

fun comma_join :: "string list \<Rightarrow> string" where
  "comma_join [] = []"
| "comma_join [x] = x"
| "comma_join (x # y # ys) = x @ '','' @ comma_join (y # ys)"

text \<open>\<^verbatim>\<open>glob.escape\<close>: each of the characters \<^verbatim>\<open>*\<close>, \<^verbatim>\<open>?\<close>, \<^verbatim>\<open>[\<close> is put in brackets.\<close>

definition glob_escape :: "string \<Rightarrow> string" where
  "glob_escape pathname =
     concat (map (\<lambda>c. if c \<in> set ''*?['' then [CHR ''['', c, CHR '']''] else [c]) pathname)"

text \<open>\<^verbatim>\<open>os.path.split\<close>, \<^verbatim>\<open>os.path.basename\<close> and \<^verbatim>\<open>os.path.splitext\<close> on POSIX. The loop of
  \<^verbatim>\<open>splitext\<close> looks for a character other than the dot between the last separator and
  the last dot.\<close>

definition os_path_split :: "string \<Rightarrow> string \<times> string" where
  "os_path_split p =
     (let i = nat (py_rfind (CHR ''/'') p + 1);
          head = take i p;
          tail = drop i p
      in if head \<noteq> [] \<and> head \<noteq> replicate (length head) (CHR ''/'')
         then (rev (dropWhile (\<lambda>c. c = CHR ''/'') (rev head)), tail)
         else (head, tail))"

definition os_path_basename :: "string \<Rightarrow> string" where
  "os_path_basename p = drop (nat (py_rfind (CHR ''/'') p + 1)) p"

definition os_path_splitext :: "string \<Rightarrow> string \<times> string" where
  "os_path_splitext p =
     (let sepIndex = py_rfind (CHR ''/'') p;
          dotIndex = py_rfind (CHR ''.'') p
      in if dotIndex > sepIndex \<and>
            list_ex (\<lambda>c. c \<noteq> CHR ''.'')
              (take (nat dotIndex - nat (sepIndex + 1)) (drop (nat (sepIndex + 1)) p))
         then (take (nat dotIndex) p, drop (nat dotIndex) p)
         else (p, []))"

text \<open>\<^verbatim>\<open>path.split('/')[-2]\<close>.\<close>

definition second_last_component :: "string \<Rightarrow> error + string" where
  "second_last_component path =
     (let parts = py_split (CHR ''/'') path
      in if length parts < 2 then Inl IndexError else Inr (parts ! (length parts - 2)))"

section \<open>The command line and the world the script reads\<close>

record args =
  args_results_dir :: string
  args_method_dirs :: "string list option"
  args_method_names :: "string list option"
  args_web_dir :: "string option"
  args_sort_by :: "(string \<times> string) option"
  args_use_ffmpeg :: bool
  args_batch_size :: int
  args_show_se :: bool
  args_only_metrics :: bool

text \<open>
  What the script obtains from the file system and from libraries: \<^verbatim>\<open>os.listdir\<close>
  (\<open>None\<close>: no such directory), \<^verbatim>\<open>glob.glob\<close> of a pattern, \<^verbatim>\<open>os.path.normpath\<close>, the table
  files and the cell reader of \<open>load_metrics\<close>, numpy's \<^verbatim>\<open>np.mean\<close> and \<^verbatim>\<open>np.std\<close> of a
  matrix, \<^verbatim>\<open>np.sqrt\<close> of an integer and the division of two floating-point values, the
  part of \<^verbatim>\<open>sorted\<close> that \<open>py_sorted\<close> leaves open, \<^verbatim>\<open>cv2.imread\<close>, and the two encoders
  (\<open>None\<close>: the animation was written; the external process of \<^verbatim>\<open>ffmpeg_save_gif\<close> ending
  with a non-zero status is \<open>Some IOError\<close>). Files written by the script are not read
  back by it and are not represented.
\<close>

record env =
  env_listdir :: "string \<Rightarrow> string list option"
  env_glob :: "string \<Rightarrow> string list"
  env_normpath :: "string \<Rightarrow> string"
  env_read_csv :: "string \<Rightarrow> string list list option"
  env_float32 :: "string \<Rightarrow> np_float option"
  env_np_mean :: "np_float list list \<Rightarrow> np_float"
  env_np_std :: "np_float list list \<Rightarrow> np_float"
  env_np_sqrt :: "nat \<Rightarrow> np_float"
  env_true_divide :: "np_float \<Rightarrow> np_float \<Rightarrow> np_float"
  env_list_sort :: "sort_tuple list \<Rightarrow> sort_tuple list"
  env_imread :: "string \<Rightarrow> image option"
  env_moviepy :: "string \<Rightarrow> image list \<Rightarrow> error option"
  env_ffmpeg :: "string \<Rightarrow> image list \<Rightarrow> error option"

text \<open>A loop over a list whose body may raise, threading the variables it assigns.\<close>

fun fold_err :: "('a \<Rightarrow> 's \<Rightarrow> error + 's) \<Rightarrow> 'a list \<Rightarrow> 's \<Rightarrow> error + 's" where
  "fold_err f [] s = Inr s"
| "fold_err f (x # xs) s = (case f x s of Inl e \<Rightarrow> Inl e | Inr s' \<Rightarrow> fold_err f xs s')"

text \<open>Lines 194-196 of \<^verbatim>\<open>main\<close>: \<^verbatim>\<open>metric_mean\<close> and \<^verbatim>\<open>metric_se\<close> of a loaded matrix,
  with \<^verbatim>\<open>num_samples = len(metric)\<close> its number of rows.\<close>

definition metric_mean :: "env \<Rightarrow> np_float list list \<Rightarrow> np_float" where
  "metric_mean env metric = env_np_mean env metric"

definition metric_se :: "env \<Rightarrow> np_float list list \<Rightarrow> np_float" where
  "metric_se env metric =
     (let num_samples = length metric
      in env_true_divide env (env_np_std env metric) (env_np_sqrt env num_samples))"

section \<open>\<^verbatim>\<open>save_images\<close> and the encoders\<close>

text \<open>Lines 30-36: \<^verbatim>\<open>image_fnames[0]\<close> raises on an empty list; the writes succeed.\<close>

definition save_images :: "string list \<Rightarrow> image list \<Rightarrow> error option" where
  "save_images image_fnames images = (if image_fnames = [] then Some IndexError else None)"

text \<open>Lines 39-45 and 48-82: \<^verbatim>\<open>ffmpeg_save_gif\<close> reads \<^verbatim>\<open>images[0].shape\<close> before it starts
  the process.\<close>

definition save_gif :: "env \<Rightarrow> string \<Rightarrow> image list \<Rightarrow> error option" where
  "save_gif env gif_fname images = env_moviepy env gif_fname images"

definition ffmpeg_save_gif :: "env \<Rightarrow> string \<Rightarrow> image list \<Rightarrow> error option" where
  "ffmpeg_save_gif env gif_fname images =
     (if images = [] then Some IndexError else env_ffmpeg env gif_fname images)"

section \<open>ReportAssembler: \<^verbatim>\<open>main\<close>\<close>

text \<open>Lines 130-147: the method directories and names. A missing results directory makes
  \<^verbatim>\<open>os.listdir\<close> raise.\<close>

definition discover_methods :: "env \<Rightarrow> args \<Rightarrow> error + (string list \<times> string list)" where
  "discover_methods env args =
     (case
        (case args_method_dirs args of
           None \<Rightarrow>
             (case env_listdir env (args_results_dir args) of
                None \<Rightarrow> Inl FileNotFoundError
              | Some listing \<Rightarrow> Inr (default_method_dirs listing))
         | Some given \<Rightarrow> Inr given)
      of
        Inl e \<Rightarrow> Inl e
      | Inr method_dirs \<Rightarrow>
          (let method_names =
                 (case args_method_names args of None \<Rightarrow> method_dirs | Some given \<Rightarrow> given)
           in Inr (method_names, map (os_path_join (args_results_dir args)) method_dirs)))"

text \<open>
  Lines 149-157. The variable \<^verbatim>\<open>method_ids\<close> is assigned on line 155 and nowhere else:
  without \<^verbatim>\<open>--sort_by\<close> it stays unbound, which is \<open>None\<close> in the first component.
\<close>

definition sort_block ::
  "env \<Rightarrow> args \<Rightarrow> string list \<Rightarrow> string list \<Rightarrow> event list \<Rightarrow>
     error + (nat list option \<times> string list \<times> string list \<times> event list)" where
  "sort_block env args method_names method_dirs webpage =
     (case args_sort_by args of
        None \<Rightarrow> Inr (None, method_names, method_dirs, webpage)
      | Some (task_name, metric_name) \<Rightarrow>
          (case sort_methods (env_read_csv env) (env_float32 env) (env_np_mean env)
                  (env_list_sort env) task_name metric_name method_names method_dirs of
             Inl e \<Rightarrow> Inl e
           | Inr (sort_criterion, method_ids, sorted_names, sorted_dirs) \<Rightarrow>
               Inr (Some method_ids, sorted_names, sorted_dirs,
                    webpage @ [AddHeader3 (''sorted by '' @ task_name @ '', '' @ metric_name)])))"

text \<open>Lines 160-168: task and metric names, from the table files of the first method.\<close>

definition task_and_metric_name :: "string \<Rightarrow> error + (string \<times> string)" where
  "task_and_metric_name metric_fname =
     (case os_path_split metric_fname of (head, tail) \<Rightarrow>
        (case second_last_component head of
           Inl e \<Rightarrow> Inl e
         | Inr task_name \<Rightarrow> Inr (task_name, fst (os_path_splitext tail))))"

definition infer_metric_names :: "env \<Rightarrow> string list \<Rightarrow> error + (string list \<times> string list)" where
  "infer_metric_names env method_dirs =
     (case method_dirs of
        [] \<Rightarrow> Inl IndexError
      | method_dir0 # _ \<Rightarrow>
          (let metric_fnames = sort (env_glob env (glob_escape method_dir0 @ ''/*/metrics/*.csv''))
           in case map_err task_and_metric_name metric_fnames of
                Inl e \<Rightarrow> Inl e
              | Inr names \<Rightarrow> Inr (map fst names, map snd names)))"

text \<open>Lines 174-180: one round of the loop that groups equal consecutive task names.\<close>

fun header_step :: "bool \<Rightarrow> string \<Rightarrow> string list \<times> nat list \<Rightarrow> string list \<times> nat list" where
  "header_step show_se task_name (header_txts, header_colspans) =
     (if task_name \<noteq> last header_txts
      then (header_txts @ [task_name], header_colspans @ [if show_se then 2 else 1])
      else (header_txts,
            butlast header_colspans @ [last header_colspans + (if show_se then 2 else 1)]))"

text \<open>Lines 183-186.\<close>

fun subheader_step :: "bool \<Rightarrow> string \<times> string \<Rightarrow> string list \<Rightarrow> string list" where
  "subheader_step show_se (task_name, metric_name) subheader_txts =
     subheader_txts @ [metric_name @ '' (mean)''] @
       (if show_se then [metric_name @ '' (se)''] else [])"

text \<open>
  Lines 192-200: one round of the inner loop of the table, on \<^verbatim>\<open>metric_txts\<close>,
  \<^verbatim>\<open>metric_means\<close> and \<^verbatim>\<open>num_samples\<close>; the last is unbound (\<open>None\<close>) until the first round
  of the first method and is overwritten by every round.
\<close>

fun metric_cells ::
  "env \<Rightarrow> bool \<Rightarrow> string \<Rightarrow> string \<times> string \<Rightarrow>
     cell list \<times> np_float list \<times> nat option \<Rightarrow>
     error + (cell list \<times> np_float list \<times> nat option)" where
  "metric_cells env show_se method_dir (task_name, metric_name)
       (metric_txts, metric_means, num_samples) =
     (case load_metrics (env_read_csv env) (env_float32 env)
             (os_path_join4 method_dir task_name ''metrics'' metric_name) of
        Inl e \<Rightarrow> Inl e
      | Inr metric \<Rightarrow>
          Inr (metric_txts @ [Fixed4 (metric_mean env metric)] @
                 (if show_se then [Fixed4 (metric_se env metric)] else []),
               metric_means @ [metric_mean env metric],
               Some (length metric)))"

text \<open>Lines 189-202: one round of the loop over the methods.\<close>

fun method_row ::
  "env \<Rightarrow> bool \<Rightarrow> string list \<Rightarrow> string list \<Rightarrow> nat \<times> string \<times> string \<Rightarrow>
     event list \<times> np_float list list \<times> nat option \<Rightarrow>
     error + (event list \<times> np_float list list \<times> nat option)" where
  "method_row env show_se task_names metric_names (method_id, method_name, method_dir)
       (webpage, all_metric_means, num_samples) =
     (case fold_err (metric_cells env show_se method_dir) (zip task_names metric_names)
             ([IntCell method_id, Str method_name], [], num_samples) of
        Inl e \<Rightarrow> Inl e
      | Inr (metric_txts, metric_means, num_samples') \<Rightarrow>
          Inr (webpage @ [AddRow metric_txts None], all_metric_means @ [metric_means],
               num_samples'))"

text \<open>Lines 171-203: the metrics table. Reading the unbound \<^verbatim>\<open>method_ids\<close> on line 189
  raises \<^verbatim>\<open>UnboundLocalError\<close>, a \<^verbatim>\<open>NameError\<close>. The result carries \<^verbatim>\<open>num_samples\<close>.\<close>

definition metrics_table ::
  "env \<Rightarrow> args \<Rightarrow> nat list option \<Rightarrow> string list \<Rightarrow> string list \<Rightarrow> string list \<Rightarrow>
     string list \<Rightarrow> event list \<Rightarrow> error + (event list \<times> nat option)" where
  "metrics_table env args method_ids method_names method_dirs task_names metric_names webpage =
     (case fold (header_step (args_show_se args)) task_names ([''''], [2]) of
        (header_txts, header_colspans) \<Rightarrow>
     (let subheader_txts =
            fold (subheader_step (args_show_se args)) (zip task_names metric_names)
              [''id'', ''method''];
          webpage1 = webpage @ [AddTable, AddRow (map Str header_txts) (Some header_colspans),
                         AddRow (map Str subheader_txts) None]
      in case method_ids of
           None \<Rightarrow> Inl NameError
         | Some ids \<Rightarrow>
             (case fold_err
                     (method_row env (args_show_se args) task_names metric_names)
                     (zip ids (zip method_names method_dirs)) (webpage1, [], None) of
                Inl e \<Rightarrow> Inl e
              | Inr (webpage2, all_metric_means, num_samples) \<Rightarrow>
                  Inr (webpage2 @ [Save], num_samples))))"

text \<open>Lines 209-210.\<close>

definition infer_task_names :: "env \<Rightarrow> string list \<Rightarrow> error + string list" where
  "infer_task_names env method_dirs =
     (case method_dirs of
        [] \<Rightarrow> Inl IndexError
      | method_dir0 # _ \<Rightarrow>
          map_err second_last_component
            (sort (env_glob env (glob_escape method_dir0 @ ''/*/outputs''))))"

text \<open>Lines 240-246: one round of the double loop, on \<^verbatim>\<open>output_fnames\<close> and
  \<^verbatim>\<open>all_output_images\<close>; the argument is the pair of the output name and the method.\<close>

fun load_outputs ::
  "env \<Rightarrow> string \<Rightarrow> nat \<Rightarrow> string \<times> string \<times> string \<Rightarrow>
     string list \<times> image list list \<Rightarrow> error + (string list \<times> image list list)" where
  "load_outputs env task_name sample_ind (output_name, method_name, method_dir)
       (output_fnames, all_output_images) =
     (let output_fnames' =
            sort (env_glob env
              (glob_escape (os_path_join method_dir task_name) @ ''/outputs/'' @ output_name @
                 ''_'' @ fmt_05d sample_ind @ ''_??.jpg''))
      in case load_images (env_imread env) output_fnames' of
           Inl e \<Rightarrow> Inl e
         | Inr output_images \<Rightarrow> Inr (output_fnames', all_output_images @ [output_images]))"

text \<open>The state of the image table: the cells of the current row (\<^verbatim>\<open>ims\<close>, \<^verbatim>\<open>txts\<close>,
  \<^verbatim>\<open>links\<close>) and the four header lists.\<close>

record image_row =
  ims :: "cell list"
  txts :: "cell list"
  links :: "cell list"
  header_txts :: "string list"
  subheader_txts :: "string list"
  header_colspans :: "nat list"
  subheader_colspans :: "nat list"

text \<open>Lines 225-264: one round of the loop over the tasks, for one sample. Line 259 reads
  \<^verbatim>\<open>method_ids\<close>.\<close>

definition task_images ::
  "env \<Rightarrow> args \<Rightarrow> nat list option \<Rightarrow> string list \<Rightarrow> string list \<Rightarrow> string \<Rightarrow> nat \<Rightarrow>
     string \<Rightarrow> image_row \<Rightarrow> error + image_row" where
  "task_images env args method_ids method_names method_dirs image_dir sample_ind task_name row =
     (case method_dirs of
        [] \<Rightarrow> Inl IndexError
      | method_dir0 # _ \<Rightarrow>
     (let input_fnames0 =
            sort (env_glob env
              (glob_escape (os_path_join method_dir0 task_name) @ ''/inputs/*_'' @
                 fmt_05d sample_ind @ ''_??.jpg''))
      in case load_images (env_imread env) input_fnames0 of
           Inl e \<Rightarrow> Inl e
         | Inr input_images \<Rightarrow>
     (let input_fnames =
            map (\<lambda>input_fname.
                   os_path_join (os_path_join task_name ''inputs'') (os_path_basename input_fname))
              input_fnames0
      in case save_images (map (os_path_join image_dir) input_fnames) input_images of
           Some e \<Rightarrow> Inl e
         | None \<Rightarrow>
     (let output_fnames0 =
            sort (env_glob env
              (glob_escape (os_path_join method_dir0 task_name) @ ''/outputs/*_'' @
                 fmt_05d sample_ind @ ''_??.jpg''));
          output_names =
            sort (remdups
              (map (\<lambda>output_fname.
                      (let stem = fst (os_path_splitext (os_path_basename output_fname))
                       in take (length stem - 9) stem))
                 output_fnames0))
      in case fold_err (load_outputs env task_name sample_ind)
                (concat (map (\<lambda>output_name.
                                map (\<lambda>method. (output_name, method))
                                  (zip method_names method_dirs))
                           output_names))
                (output_fnames0, []) of
           Inl e \<Rightarrow> Inl e
         | Inr (output_fnames, all_output_images) \<Rightarrow>
     (case concat_images all_output_images of
        Inl e \<Rightarrow> Inl e
      | Inr composite \<Rightarrow>
     (case output_fnames of
        [] \<Rightarrow> Inl IndexError
      | output_fname0 # _ \<Rightarrow>
     (let output_prefix_fname =
            (let stem = fst (os_path_splitext output_fname0) in take (length stem - 3) stem);
          output_fname = output_prefix_fname @ ''.gif''
      in case (if args_use_ffmpeg args
               then ffmpeg_save_gif env (os_path_join image_dir output_fname) composite
               else save_gif env (os_path_join image_dir output_fname) composite) of
           Some e \<Rightarrow> Inl e
         | None \<Rightarrow>
     (case (if sample_ind = 0
            then (case method_ids of
                    None \<Rightarrow> Inl NameError
                  | Some ids \<Rightarrow>
                      Inr (row
                        \<lparr>header_txts := header_txts row @ [task_name],
                         subheader_txts := subheader_txts row @
                           [''inputs'',
                            ''outputs (methods '' @ comma_join (map py_str ids) @ '')''],
                         header_colspans := header_colspans row @ [length input_fnames + 1],
                         subheader_colspans :=
                           subheader_colspans row @ [length input_fnames, 1]\<rparr>))
            else Inr row) of
        Inl e \<Rightarrow> Inl e
      | Inr row1 \<Rightarrow>
          Inr (row1
            \<lparr>ims := ims row1 @ map Str (input_fnames @ [output_fname]),
             txts := txts row1 @ replicate (length input_fnames + 1) NoneCell,
             links := links row1 @ map Str (input_fnames @ [output_fname])\<rparr>)))))))))"

text \<open>Lines 219-271: one round of the loop over the samples, on the page and the header
  lists. Line 220 divides by the batch size before anything else.\<close>

definition sample_images ::
  "env \<Rightarrow> args \<Rightarrow> nat list option \<Rightarrow> string list \<Rightarrow> string list \<Rightarrow> string \<Rightarrow>
     string list \<Rightarrow> nat \<Rightarrow> event list \<times> image_row \<Rightarrow> error + (event list \<times> image_row)" where
  "sample_images env args method_ids method_names method_dirs image_dir task_names sample_ind
       state =
     (case state of (webpage, headers) \<Rightarrow>
        if args_batch_size args = 0 then Inl ZeroDivisionError
        else
          (case fold_err
                  (task_images env args method_ids method_names method_dirs image_dir sample_ind)
                  task_names
                  (headers\<lparr>ims := [NoneCell], txts := [IntCell sample_ind],
                     links := [NoneCell]\<rparr>) of
             Inl e \<Rightarrow> Inl e
           | Inr row \<Rightarrow>
               Inr (webpage @
                      (if sample_ind = 0
                       then [AddRow (map Str (header_txts row)) (Some (header_colspans row)),
                             AddRow (map Str (subheader_txts row)) (Some (subheader_colspans row))]
                       else []) @
                      [AddImages (ims row) (txts row) (links row)] @
                      (if (int sample_ind + 1) mod args_batch_size args = 0 then [Save] else []),
                    row)))"

text \<open>Lines 208-272: the image table. Reading an unbound \<^verbatim>\<open>num_samples\<close> on line 219
  raises.\<close>

definition image_aggregation ::
  "env \<Rightarrow> args \<Rightarrow> nat list option \<Rightarrow> string list \<Rightarrow> string list \<Rightarrow> string \<Rightarrow> nat option \<Rightarrow>
     event list \<Rightarrow> error + event list" where
  "image_aggregation env args method_ids method_names method_dirs web_dir num_samples webpage =
     (case infer_task_names env method_dirs of
        Inl e \<Rightarrow> Inl e
      | Inr task_names \<Rightarrow>
          (case num_samples of
             None \<Rightarrow> Inl NameError
           | Some n \<Rightarrow>
               (case fold_err
                       (sample_images env args method_ids method_names method_dirs
                          (os_path_join web_dir ''images'') task_names)
                       [0..<n]
                       (webpage @ [AddTable],
                        \<lparr>ims = [], txts = [], links = [], header_txts = [''''],
                         subheader_txts = [''id''], header_colspans = [1],
                         subheader_colspans = [1]\<rparr>) of
                  Inl e \<Rightarrow> Inl e
                | Inr (webpage', headers) \<Rightarrow> Inr (webpage' @ [Save]))))"

text \<open>Lines 112-272. The result is the sequence of calls made on the report.\<close>

definition main :: "env \<Rightarrow> args \<Rightarrow> error + event list" where
  "main env args =
     (let web_dir =
            (case args_web_dir args of
               None \<Rightarrow> os_path_join (args_results_dir args) ''web''
             | Some given \<Rightarrow> given);
          webpage =
            [NewPage web_dir (''Experiment name = '' @ env_normpath env (args_results_dir args)),
             AddHeader1 (env_normpath env (args_results_dir args))]
      in case discover_methods env args of
           Inl e \<Rightarrow> Inl e
         | Inr (method_names, method_dirs) \<Rightarrow>
      (case sort_block env args method_names method_dirs webpage of
           Inl e \<Rightarrow> Inl e
         | Inr (method_ids, sorted_names, sorted_dirs, webpage1) \<Rightarrow>
      (case infer_metric_names env sorted_dirs of
           Inl e \<Rightarrow> Inl e
         | Inr (task_names, metric_names) \<Rightarrow>
      (case metrics_table env args method_ids sorted_names sorted_dirs task_names metric_names
              webpage1 of
           Inl e \<Rightarrow> Inl e
         | Inr (webpage2, num_samples) \<Rightarrow>
             if args_only_metrics args then Inr webpage2
             else image_aggregation env args method_ids sorted_names sorted_dirs web_dir
                    num_samples webpage2))))"

text \<open>The exit status of the process: 0 when \<^verbatim>\<open>main\<close> returns, 1 when an exception
  escapes.\<close>

definition exit_status :: "error + event list \<Rightarrow> nat" where
  "exit_status outcome = (case outcome of Inl e \<Rightarrow> 1 | Inr webpage \<Rightarrow> 0)"

text \<open>The sample indices of the image rows of a report, in the order of the rows: an image
  row starts with the caption \<^verbatim>\<open>sample_ind\<close>.\<close>

fun row_sample :: "event \<Rightarrow> nat list" where
  "row_sample (AddImages images (IntCell n # captions) urls) = [n]"
| "row_sample e = []"

definition sample_inds :: "event list \<Rightarrow> nat list" where
  "sample_inds webpage = concat (map row_sample webpage)"

text \<open>The table file read last by the loops of lines 189-193: that of the last method and
  the last pair of a task and a metric.\<close>

definition last_table_file ::
  "(nat \<times> string \<times> string) list \<Rightarrow> (string \<times> string) list \<Rightarrow> string" where
  "last_table_file methods pairs =
     os_path_join4 (snd (snd (last methods))) (fst (last pairs)) ''metrics'' (snd (last pairs))"

text \<open>
  A small world: the results directory \<open>r\<close> holds the method \<open>a\<close> (and the report
  directory \<open>web\<close>), with one task \<open>prediction\<close>, one metric \<open>mse\<close> with one sample, one
  input frame and one output frame of that sample, and encoders that succeed. Its table is
  \<open>one_cell_table\<close> of the cell \<open>0.5\<close>, so numpy is consulted on the matrix of that one
  cell only: its mean is the cell, its deviation is zero, the root of its one row is one,
  and a division by one changes nothing. Its one method leaves nothing to sort.
\<close>

definition small_world :: env where
  "small_world =
     \<lparr>env_listdir = [''r'' \<mapsto> [''web'', ''a'']],
      env_glob = (\<lambda>pattern.
         if pattern = ''r/a/*/metrics/*.csv'' then [''r/a/prediction/metrics/mse.csv'']
         else if pattern = ''r/a/*/outputs'' then [''r/a/prediction/outputs'']
         else if pattern = ''r/a/prediction/inputs/*_00000_??.jpg''
           then [''r/a/prediction/inputs/context_image_00000_00.jpg'']
         else if pattern = ''r/a/prediction/outputs/*_00000_??.jpg''
           then [''r/a/prediction/outputs/gen_image_00000_00.jpg'']
         else if pattern = ''r/a/prediction/outputs/gen_image_00000_??.jpg''
           then [''r/a/prediction/outputs/gen_image_00000_00.jpg'']
         else []),
      env_normpath = (\<lambda>path. path),
      env_read_csv = [''r/a/prediction/metrics/mse.csv'' \<mapsto> one_cell_table ''0.5''],
      env_float32 = [''0.5'' \<mapsto> Finite 0.5],
      env_np_mean = single_cell_mean,
      env_np_std = (\<lambda>a. case concat a of [Finite x] \<Rightarrow> Finite 0 | _ \<Rightarrow> NaN),
      env_np_sqrt = (\<lambda>n. if n = 1 then Finite 1 else NaN),
      env_true_divide = (\<lambda>x y. if y = Finite 1 then x else NaN),
      env_list_sort = unconsulted_sort,
      env_imread =
        [''r/a/prediction/inputs/context_image_00000_00.jpg'' \<mapsto> frame 4 4 ''context'',
         ''r/a/prediction/outputs/gen_image_00000_00.jpg'' \<mapsto> frame 4 4 ''gen''],
      env_moviepy = (\<lambda>gif_fname images. None),
      env_ffmpeg = (\<lambda>gif_fname images. None)\<rparr>"

text \<open>The command line \<^verbatim>\<open>combine_results.py r\<close>, every option at its default, and the same
  with \<^verbatim>\<open>--sort_by prediction mse\<close>.\<close>

definition default_run :: args where
  "default_run =
     \<lparr>args_results_dir = ''r'', args_method_dirs = None, args_method_names = None,
      args_web_dir = None, args_sort_by = None, args_use_ffmpeg = False,
      args_batch_size = 16, args_show_se = False, args_only_metrics = False\<rparr>"

definition sorted_run :: args where
  "sorted_run = default_run\<lparr>args_sort_by := Some (''prediction'', ''mse'')\<rparr>"

definition sorted_report :: "event list" where
  "sorted_report =
     [NewPage ''r/web'' ''Experiment name = r'', AddHeader1 ''r'',
      AddHeader3 ''sorted by prediction, mse'', AddTable,
      AddRow [Str '''', Str ''prediction''] (Some [2, 1]),
      AddRow [Str ''id'', Str ''method'', Str ''mse (mean)''] None,
      AddRow [IntCell 0, Str ''a'', Fixed4 (Finite 0.5)] None, Save,
      AddTable,
      AddRow [Str '''', Str ''prediction''] (Some [1, 2]),
      AddRow [Str ''id'', Str ''inputs'', Str ''outputs (methods 0)''] (Some [1, 1, 1]),
      AddImages
        [NoneCell, Str ''prediction/inputs/context_image_00000_00.jpg'',
         Str ''r/a/prediction/outputs/gen_image_00000.gif'']
        [IntCell 0, NoneCell, NoneCell]
        [NoneCell, Str ''prediction/inputs/context_image_00000_00.jpg'',
         Str ''r/a/prediction/outputs/gen_image_00000.gif''],
      Save]"

section \<open>Auxiliary facts\<close>

lemma map_err_Inr_iff:
  "map_err f xs = Inr ys \<longleftrightarrow> list_all2 (\<lambda>x y. f x = Inr y) xs ys"
proof (induction xs arbitrary: ys)
  case Nil
  then show ?case by auto
next
  case (Cons a xs)
  show ?case
    by (auto simp: list_all2_Cons1 Cons.IH [symmetric] split: sum.splits)
qed

lemma map_err_total:
  "(\<And>x. x \<in> set xs \<Longrightarrow> f x = Inr (g x)) \<Longrightarrow> map_err f xs = Inr (map g xs)"
  by (induction xs) auto

lemma map_err_length: "map_err f xs = Inr ys \<Longrightarrow> length ys = length xs"
  by (simp add: map_err_Inr_iff list_all2_lengthD)

lemma next_all_eq:
  "next_all xss = (if [] \<in> set xss then None else Some (map hd xss, map tl xss))"
  by (induction xss rule: next_all.induct) auto

lemma zip_star_Cons:
  "zip_star (xs # xss) =
     (if [] \<in> set (xs # xss) then [] else map hd (xs # xss) # zip_star (map tl (xs # xss)))"
  by (simp add: next_all_eq del: next_all.simps)

lemma length_zip_star:
  "xss \<noteq> [] \<Longrightarrow> length (zip_star xss) = Min (length ` set xss)"
proof (induction xss rule: zip_star.induct)
  case 1
  then show ?case by simp
next
  case (2 xs xss)
  let ?A = "length ` set (xs # xss)"
  have fin: "finite ?A" "?A \<noteq> {}" by auto
  show ?case
  proof (cases "[] \<in> set (xs # xss)")
    case True
    then have "0 \<in> ?A" by force
    then have "Min ?A = 0" using fin by (metis Min_le le_zero_eq)
    with True show ?thesis by (simp add: zip_star_Cons del: zip_star.simps)
  next
    case False
    have nx: "next_all (xs # xss) = Some (map hd (xs # xss), map tl (xs # xss))"
      using False by (simp only: next_all_eq if_False)
    have IH: "length (zip_star (map tl (xs # xss))) = Min (length ` set (map tl (xs # xss)))"
      using "2.IH" [OF nx refl] by simp
    have img: "length ` set (map tl (xs # xss)) = (\<lambda>n. n - 1) ` ?A"
      by (simp add: image_image del: list.map set_simps) 
    have "mono (\<lambda>n::nat. n - 1)" by (simp add: mono_def diff_le_mono)
    from mono_Min_commute [OF this fin]
    have "Min ((\<lambda>n. n - 1) ` ?A) = Min ?A - 1" by simp
    moreover have "0 < Min ?A" using False fin by (auto simp del: set_simps)
    ultimately show ?thesis
      using False IH img by (simp add: zip_star_Cons del: zip_star.simps set_simps list.map)
  qed
qed

lemma in_set_tl: "x \<in> set (tl ys) \<Longrightarrow> x \<in> set ys"
  by (cases ys) auto

lemma zip_star_rows:
  "r \<in> set (zip_star xss) \<Longrightarrow> list_all2 (\<lambda>x xs. x \<in> set xs) r xss"
proof (induction xss arbitrary: r rule: zip_star.induct)
  case 1
  then show ?case by simp
next
  case (2 xs xss)
  show ?case
  proof (cases "[] \<in> set (xs # xss)")
    case True
    with "2.prems" show ?thesis by (simp only: zip_star_Cons if_True) simp
  next
    case False
    have nx: "next_all (xs # xss) = Some (map hd (xs # xss), map tl (xs # xss))"
      using False by (simp only: next_all_eq if_False)
    from "2.prems" False
    consider "r = map hd (xs # xss)" | "r \<in> set (zip_star (map tl (xs # xss)))"
      by (simp only: zip_star_Cons if_False) auto
    then show ?thesis
    proof cases
      case 1
      have "list_all2 (\<lambda>x xs. x \<in> set xs) (map hd (xs # xss)) (xs # xss)"
        using False by (auto simp: list_all2_map1 list_all2_same simp del: list.map intro!: hd_in_set)
      with 1 show ?thesis by simp
    next
      case 2
      from "2.IH" [OF nx refl 2]
      have "list_all2 (\<lambda>x xs. x \<in> set xs) r (map tl (xs # xss))" .
      then have "list_all2 (\<lambda>x xs. x \<in> set (tl xs)) r (xs # xss)"
        by (simp only: list_all2_map2)
      then show ?thesis
        by (rule list_all2_mono) (rule in_set_tl)
    qed
  qed
qed

lemma Min_insert_min:
  "finite S \<Longrightarrow> Min (insert (min a b) S) = Min (insert a (insert b S))"
  for a b :: nat
  by (cases "S = {}") (simp_all add: min.assoc)

lemma fold_min_shape_step:
  "fold min_shape_step xs (Some (h, w)) =
     Some (Min (insert h (height ` set xs)), Min (insert w (width ` set xs)))"
proof (induction xs arbitrary: h w)
  case Nil
  then show ?case by simp
next
  case (Cons x xs)
  show ?case by (simp add: Cons.IH Min_insert_min shape_def del: Min_insert)
qed

lemma min_shape_concat:
  "fold (\<lambda>all_image m. fold min_shape_step all_image m) all_images m =
     fold min_shape_step (concat all_images) m"
  by (induction all_images arbitrary: m) auto

lemma min_shape_eq:
  assumes "concat all_images \<noteq> []"
  shows "min_shape all_images =
    Some (Min (height ` set (concat all_images)), Min (width ` set (concat all_images)))"
proof -
  from assms obtain x xs where c: "concat all_images = x # xs"
    by (cases "concat all_images") auto
  show ?thesis
    unfolding min_shape_def min_shape_concat c
    by (simp add: fold_min_shape_step shape_def)
qed

lemma list_all2_setD1:
  "list_all2 P xs ys \<Longrightarrow> x \<in> set xs \<Longrightarrow> \<exists>y\<in>set ys. P x y"
  by (induction rule: list_all2_induct) auto

lemma sum_list_width_const:
  "(\<And>x. x \<in> set r \<Longrightarrow> width x = w) \<Longrightarrow> sum_list (map width r) = w * length r"
  by (induction r) auto

lemma np_concatenate_axis1_uniform:
  assumes "r \<noteq> []" and "\<And>x. x \<in> set r \<Longrightarrow> height x = h \<and> width x = w"
  shows "np_concatenate_axis1 r =
    Inr \<lparr>height = h, width = w * length r, pix = HStack (map pix r)\<rparr>"
proof -
  from assms(1) obtain a rest where r: "r = a # rest" by (cases r) auto
  have 2: "height a = h" using assms(2) [of a] by (simp add: r)
  have "height b = height a" if "b \<in> set rest" for b
    using assms(2) [of b] that 2 by (simp add: r)
  then have 1: "list_all (\<lambda>b. height b = height a) rest"
    by (simp add: list_all_iff)
  have "width x = w" if "x \<in> set r" for x using assms(2) [OF that] by simp
  then have "sum_list (map width r) = w * length r"
    by (rule sum_list_width_const)
  then have 3: "sum_list (map width (a # rest)) = w * length (a # rest)"
    by (simp only: r)
  show ?thesis
    unfolding np_concatenate_axis1_def r list.case
    using 1 3 by (simp only: 2 if_True)
qed

lemma concat_images_length:
  assumes "concat_images all_images = Inr frames" and "all_images \<noteq> []"
  shows "length frames = Min (length ` set all_images)"
proof -
  from assms(1) obtain resized where
    res: "map_err (map_err (maybe_resize (min_shape all_images))) all_images = Inr resized"
    and fr: "map_err np_concatenate_axis1 (zip_star resized) = Inr frames"
    by (auto simp: concat_images_def Let_def split: sum.splits)
  from res have "list_all2 (\<lambda>s t. map_err (maybe_resize (min_shape all_images)) s = Inr t)
     all_images resized"
    by (simp add: map_err_Inr_iff)
  then have "list_all2 (\<lambda>s t. length s = length t) all_images resized"
    by (rule list_all2_mono) (simp add: map_err_length)
  then have "map length all_images = map length resized"
    by (simp add: list_all2_conv_all_nth list_eq_iff_nth_eq)
  then have "length ` set all_images = length ` set resized" and "resized \<noteq> []"
    using assms(2) by (metis set_map, auto)
  with fr show ?thesis
    by (simp add: map_err_length length_zip_star)
qed

lemma load_images_loop_missing:
  "p \<in> set image_fnames \<Longrightarrow> imread p = None \<Longrightarrow>
     load_images_loop imread image_fnames images = Inl CvError"
proof (induction image_fnames arbitrary: images)
  case Nil
  then show ?case by simp
next
  case (Cons q qs)
  show ?case
  proof (cases "imread q")
    case None
    then show ?thesis by (simp add: cv2_cvtColor_BGR2RGB_def)
  next
    case (Some img)
    with Cons.prems have "p \<in> set qs" by auto
    from Cons.IH [OF this Cons.prems(2)] Some show ?thesis
      by (simp add: cv2_cvtColor_BGR2RGB_def)
  qed
qed

lemma load_images_loop_present:
  "(\<And>p. p \<in> set image_fnames \<Longrightarrow> imread p = Some (decoded p)) \<Longrightarrow>
     load_images_loop imread image_fnames images =
       Inr (images @ map (\<lambda>p. (decoded p)\<lparr>pix := SwapRB (pix (decoded p))\<rparr>) image_fnames)"
  by (induction image_fnames arbitrary: images) (simp_all add: cv2_cvtColor_BGR2RGB_def)

lemma slice_1_to_last_eq: "slice_1_to_last xs = butlast (tl xs)"
  by (simp add: slice_1_to_last_def butlast_conv_take drop_Suc drop_take tl_take)

lemma remove1_filter: "distinct xs \<Longrightarrow> remove1 x xs = filter (\<lambda>y. y \<noteq> x) xs"
  by (simp add: distinct_remove1_removeAll removeAll_filter_not_eq neq_commute)

lemma front_step_eq:
  "front_step x (u, m) = (remove1 x u, m @ (if x \<in> set u then [x] else []))"
  by (simp add: remove1_idem)

lemma fst_mono_lex: "x \<le> y \<Longrightarrow> fst x \<le> fst y" for x y :: "'a::linorder \<times> 'b::linorder"
  by (auto simp: less_eq_prod_def)

lemma snd_mono_lex: "x \<le> y \<Longrightarrow> fst x = fst y \<Longrightarrow> snd x \<le> snd y"
  for x y :: "'a::linorder \<times> 'b::linorder"
  by (auto simp: less_eq_prod_def)

text \<open>
  Without NaN the keys of \<open>py_sorted\<close> order the tuples as Python's \<^verbatim>\<open><\<close> does.
\<close>

lemma float_key_le:
  "a \<noteq> NaN \<Longrightarrow> b \<noteq> NaN \<Longrightarrow> float_key a \<le> float_key b \<longleftrightarrow> float_le a b"
  by (cases a; cases b) (auto simp: float_le_def less_eq_prod_def)

lemma float_key_eq:
  "a \<noteq> NaN \<Longrightarrow> b \<noteq> NaN \<Longrightarrow> float_key a = float_key b \<longleftrightarrow> float_eq a b"
  by (cases a; cases b) simp_all

lemma float_key_less:
  "a \<noteq> NaN \<Longrightarrow> b \<noteq> NaN \<Longrightarrow> float_key a < float_key b \<longleftrightarrow> float_lt a b"
  by (cases a; cases b) (auto simp: less_prod_def)

lemma float_eq_not_lt: "float_eq a b \<Longrightarrow> \<not> float_lt a b"
  by (cases a; cases b) simp_all

lemma tuple_lt_sort_key:
  "fst s \<noteq> NaN \<Longrightarrow> fst t \<noteq> NaN \<Longrightarrow> tuple_lt s t \<longleftrightarrow> sort_key_of s < sort_key_of t"
proof -
  assume numbers: "fst s \<noteq> NaN" "fst t \<noteq> NaN"
  have lex: "(k1, r1) < (k2, r2) \<longleftrightarrow> k1 < k2 \<or> k1 = k2 \<and> r1 < r2"
    for k1 k2 :: "int \<times> real" and r1 r2 :: "nat \<times> string \<times> string"
    by (simp only: less_prod_simp order_le_less) blast
  show ?thesis
    unfolding tuple_lt_def sort_key_of_def lex
    by (auto simp: float_key_eq float_key_less numbers float_eq_not_lt)
qed

lemmas sort_eval = sort_methods_def sort_criterion_of_def py_sorted_def sort_key_of_def
      load_metrics_def decimal_cells_def one_cell_table_def
      os_path_join4_def os_path_join_def np_array_def index_rows_cols_def slice_from1_def
      slice_1_to_last_def astype_float32_def single_cell_mean_def less_eq_prod_def less_prod_def
      upt_rec [of 0] upt_rec [of 1] upt_rec [of 2]

lemma sample_inds_append: "sample_inds (a @ b) = sample_inds a @ sample_inds b"
  by (simp add: sample_inds_def)

lemma metric_cells_last:
  assumes "fold_err (metric_cells env se dir) pairs (t, m, ns) = Inr (t', m', ns')"
    and "pairs \<noteq> []"
  shows "\<exists>metric. load_metrics (env_read_csv env) (env_float32 env)
      (os_path_join4 dir (fst (last pairs)) ''metrics'' (snd (last pairs))) = Inr metric \<and>
    ns' = Some (length metric)"
  using assms
proof (induction pairs arbitrary: t m ns)
  case Nil
  then show ?case by simp
next
  case (Cons p pairs)
  obtain task_name metric_name where p: "p = (task_name, metric_name)" by (cases p)
  from Cons.prems(1) obtain metric where
    ld: "load_metrics (env_read_csv env) (env_float32 env)
      (os_path_join4 dir task_name ''metrics'' metric_name) = Inr metric"
    by (auto simp: p split: sum.splits)
  show ?case
  proof (cases "pairs = []")
    case True
    with Cons.prems(1) ld show ?thesis by (auto simp: p)
  next
    case False
    from Cons.prems(1) ld obtain t1 m1 where
      "fold_err (metric_cells env se dir) pairs (t1, m1, Some (length metric)) = Inr (t', m', ns')"
      by (auto simp: p)
    from Cons.IH [OF this False] False show ?thesis by simp
  qed
qed

lemma method_row_last:
  assumes "fold_err (method_row env se tasks metrics) rows (w, a, ns) = Inr (w', a', ns')"
    and "rows \<noteq> []" and "zip tasks metrics \<noteq> []"
  shows "\<exists>metric. load_metrics (env_read_csv env) (env_float32 env)
      (last_table_file rows (zip tasks metrics)) = Inr metric \<and>
    ns' = Some (length metric)"
  using assms(1,2)
proof (induction rows arbitrary: w a ns)
  case Nil
  then show ?case by simp
next
  case (Cons r rows)
  obtain method_id method_name method_dir where r: "r = (method_id, method_name, method_dir)"
    by (cases r)
  from Cons.prems(1) obtain t1 m1 ns1 where
    inner: "fold_err (metric_cells env se method_dir) (zip tasks metrics)
        ([IntCell method_id, Str method_name], [], ns) = Inr (t1, m1, ns1)"
    and rest: "fold_err (method_row env se tasks metrics) rows
        (w @ [AddRow t1 None], a @ [m1], ns1) = Inr (w', a', ns')"
    by (auto simp: r split: sum.splits)
  show ?case
  proof (cases "rows = []")
    case True
    with rest have "ns' = ns1" by simp
    with metric_cells_last [OF inner assms(3)] True show ?thesis
      by (simp add: last_table_file_def r)
  next
    case False
    from Cons.IH [OF rest False] False show ?thesis
      by (simp add: last_table_file_def)
  qed
qed

lemma method_row_unbound:
  assumes "fold_err (method_row env se tasks metrics) rows (w, a, ns) = Inr (w', a', ns')"
    and "rows = [] \<or> zip tasks metrics = []"
  shows "ns' = ns"
  using assms
proof (induction rows arbitrary: w a ns)
  case Nil
  then show ?case by simp
next
  case (Cons r rows)
  then have empty: "zip tasks metrics = []" by simp
  obtain method_id method_name method_dir where r: "r = (method_id, method_name, method_dir)"
    by (cases r)
  from Cons.prems(1) have
    "fold_err (method_row env se tasks metrics) rows
        (w @ [AddRow [IntCell method_id, Str method_name] None], a @ [[]], ns) = Inr (w', a', ns')"
    by (simp add: r empty)
  from Cons.IH [OF this] empty show ?case by simp
qed

lemma method_row_events:
  "fold_err (method_row env se tasks metrics) rows (w, a, ns) = Inr (w', a', ns') \<Longrightarrow>
     sample_inds w' = sample_inds w"
proof (induction rows arbitrary: w a ns)
  case Nil
  then show ?case by simp
next
  case (Cons r rows)
  obtain method_id method_name method_dir where r: "r = (method_id, method_name, method_dir)"
    by (cases r)
  from Cons.prems obtain t1 m1 ns1 where
    "fold_err (method_row env se tasks metrics) rows
        (w @ [AddRow t1 None], a @ [m1], ns1) = Inr (w', a', ns')"
    by (auto simp: r split: sum.splits)
  from Cons.IH [OF this] show ?case by (simp add: sample_inds_def)
qed

lemma task_images_txts:
  "task_images env args ids names dirs image_dir i task row = Inr row' \<Longrightarrow>
     \<exists>extra. txts row' = txts row @ extra"
  unfolding task_images_def Let_def
  by (auto split: list.splits sum.splits option.splits if_splits prod.splits)

lemma tasks_txts:
  "fold_err (task_images env args ids names dirs image_dir i) tasks row = Inr row' \<Longrightarrow>
     \<exists>extra. txts row' = txts row @ extra"
proof (induction tasks arbitrary: row)
  case Nil
  then show ?case by simp
next
  case (Cons task tasks)
  from Cons.prems obtain row1 where
    1: "task_images env args ids names dirs image_dir i task row = Inr row1"
    and 2: "fold_err (task_images env args ids names dirs image_dir i) tasks row1 = Inr row'"
    by (auto split: sum.splits)
  from task_images_txts [OF 1] Cons.IH [OF 2] show ?case by auto
qed

lemma sample_images_events:
  assumes "sample_images env args ids names dirs image_dir tasks i (w, h) = Inr (w', h')"
  shows "sample_inds w' = sample_inds w @ [i]"
proof -
  from assms obtain row where
    row: "fold_err (task_images env args ids names dirs image_dir i) tasks
        (h\<lparr>ims := [NoneCell], txts := [IntCell i], links := [NoneCell]\<rparr>) = Inr row"
    and w': "w' = w @
        (if i = 0
         then [AddRow (map Str (header_txts row)) (Some (header_colspans row)),
               AddRow (map Str (subheader_txts row)) (Some (subheader_colspans row))]
         else []) @
        [AddImages (ims row) (txts row) (links row)] @
        (if (int i + 1) mod args_batch_size args = 0 then [Save] else [])"
    by (auto simp: sample_images_def split: if_splits sum.splits)
  from tasks_txts [OF row] obtain extra where "txts row = IntCell i # extra" by auto
  then show ?thesis
    unfolding w' by (simp add: sample_inds_def)
qed

lemma samples_events:
  "fold_err (sample_images env args ids names dirs image_dir tasks) xs (w, h) = Inr (w', h') \<Longrightarrow>
     sample_inds w' = sample_inds w @ xs"
proof (induction xs arbitrary: w h)
  case Nil
  then show ?case by simp
next
  case (Cons i xs)
  from Cons.prems obtain w1 h1 where
    1: "sample_images env args ids names dirs image_dir tasks i (w, h) = Inr (w1, h1)"
    and 2: "fold_err (sample_images env args ids names dirs image_dir tasks) xs (w1, h1) = Inr (w', h')"
    by (auto split: sum.splits)
  from sample_images_events [OF 1] Cons.IH [OF 2] show ?case by simp
qed

lemma main_without_sort_by:
  assumes "args_sort_by args = None"
  shows "isl (main env args)"
  unfolding main_def Let_def
  by (auto simp: assms sort_block_def metrics_table_def Let_def split: sum.splits prod.splits)

lemmas run_defs = sorted_run_def default_run_def
lemmas path_defs = os_path_join_def os_path_join4_def os_path_split_def os_path_basename_def
  os_path_splitext_def py_rfind_def second_last_component_def glob_escape_def
lemmas table_defs = load_metrics_def np_array_def index_rows_cols_def slice_from1_def
  slice_1_to_last_def astype_float32_def single_cell_mean_def metric_mean_def one_cell_table_def

lemma small_world_fields:
  "env_normpath small_world = (\<lambda>path. path)"
  "args_web_dir sorted_run = None" "args_results_dir sorted_run = ''r''"
  "args_only_metrics sorted_run = False" "args_batch_size sorted_run = 16"
  "args_web_dir default_run = None" "args_results_dir default_run = ''r''"
  by (simp_all add: run_defs small_world_def)

lemma small_world_discover:
  "discover_methods small_world default_run = Inr ([''a''], [''r/a''])"
  "discover_methods small_world sorted_run = Inr ([''a''], [''r/a''])"
  by (simp_all add: discover_methods_def run_defs small_world_def default_method_dirs_def
      os_path_join_def)

lemma small_world_sort:
  "sort_block small_world default_run names dirs w = Inr (None, names, dirs, w)"
  "sort_block small_world sorted_run [''a''] [''r/a''] w =
     Inr (Some [0], [''a''], [''r/a''], w @ [AddHeader3 ''sorted by prediction, mse''])"
  by (simp_all add: sort_block_def sort_methods_def sort_criterion_of_def py_sorted_def
      sort_key_of_def run_defs small_world_def path_defs table_defs)

lemma small_world_metric_names:
  "infer_metric_names small_world [''r/a''] = Inr ([''prediction''], [''mse''])"
  by (simp add: infer_metric_names_def task_and_metric_name_def small_world_def path_defs Let_def)

lemma small_world_table:
  "metrics_table small_world default_run None [''a''] [''r/a''] [''prediction''] [''mse''] w =
     Inl NameError"
  "metrics_table small_world sorted_run (Some [0]) [''a''] [''r/a''] [''prediction''] [''mse''] w =
     Inr (w @ [AddTable, AddRow [Str '''', Str ''prediction''] (Some [2, 1]),
               AddRow [Str ''id'', Str ''method'', Str ''mse (mean)''] None,
               AddRow [IntCell 0, Str ''a'', Fixed4 (Finite 0.5)] None, Save],
          Some (Suc 0))"
  by (simp_all add: metrics_table_def run_defs small_world_def path_defs table_defs Let_def)

lemma small_world_task_names:
  "infer_task_names small_world [''r/a''] = Inr [''prediction'']"
  by (simp add: infer_task_names_def small_world_def path_defs Let_def)

lemma small_world_task_images:
  "task_images small_world sorted_run (Some [0]) [''a''] [''r/a''] ''r/web/images'' 0
     ''prediction'' row =
   Inr (row
     \<lparr>header_txts := header_txts row @ [''prediction''],
      subheader_txts := subheader_txts row @ [''inputs'', ''outputs (methods 0)''],
      header_colspans := header_colspans row @ [2],
      subheader_colspans := subheader_colspans row @ [1, 1],
      ims := ims row @
        [Str ''prediction/inputs/context_image_00000_00.jpg'',
         Str ''r/a/prediction/outputs/gen_image_00000.gif''],
      txts := txts row @ [NoneCell, NoneCell],
      links := links row @
        [Str ''prediction/inputs/context_image_00000_00.jpg'',
         Str ''r/a/prediction/outputs/gen_image_00000.gif'']\<rparr>)"
  by code_simp simp

lemma small_world_images:
  "image_aggregation small_world sorted_run (Some [0]) [''a''] [''r/a''] ''r/web'' (Some (Suc 0)) w =
     Inr (w @
       [AddTable,
        AddRow [Str '''', Str ''prediction''] (Some [1, 2]),
        AddRow [Str ''id'', Str ''inputs'', Str ''outputs (methods 0)''] (Some [1, 1, 1]),
        AddImages
          [NoneCell, Str ''prediction/inputs/context_image_00000_00.jpg'',
           Str ''r/a/prediction/outputs/gen_image_00000.gif'']
          [IntCell 0, NoneCell, NoneCell]
          [NoneCell, Str ''prediction/inputs/context_image_00000_00.jpg'',
           Str ''r/a/prediction/outputs/gen_image_00000.gif''],
        Save])"
  by (simp add: image_aggregation_def sample_images_def small_world_task_names
      small_world_task_images small_world_fields os_path_join_def)

lemma small_world_sorted_run: "main small_world sorted_run = Inr sorted_report"
  by (simp add: main_def small_world_discover small_world_sort small_world_metric_names
      small_world_table small_world_images small_world_fields os_path_join_def sorted_report_def)

section \<open>Properties of \<^verbatim>\<open>concat_images\<close>\<close>

text \<open>
  Claim C9, as amended. Called with no sequence at all, \<open>concat_images\<close> raises nothing:
  both loops are skipped, \<^verbatim>\<open>zip()\<close> yields nothing, and the result is the empty list.
\<close>

theorem concat_images_empty: "concat_images [] = Inr []"
  by (simp add: concat_images_def min_shape_def)

text \<open>The claim C9 as stated (a failure on the empty list) does not hold.\<close>

theorem concat_images_empty_no_failure: "\<not> isl (concat_images [])"
  by (simp add: concat_images_def min_shape_def)

text \<open>
  Claim C1, as amended. Take a non-empty list of \<open>N\<close> sequences, each of \<open>L\<close> non-empty
  frames, and let \<open>minH\<close> and \<open>minW\<close> be the least height and the least width over all
  frames. If every frame already has the shape \<open>(minH, minW)\<close>, or if \<open>minH = minW\<close>,
  then \<open>concat_images\<close> returns exactly \<open>L\<close> composite frames, each of height \<open>minH\<close>
  and width \<open>minW * N\<close>.
\<close>

theorem concat_images_sizes:
  assumes nonempty: "all_images \<noteq> []"
    and equal_length: "\<forall>s\<in>set all_images. length s = L"
    and positive: "\<forall>f\<in>set (concat all_images). 0 < height f \<and> 0 < width f"
    and minH: "minH = Min (height ` set (concat all_images))"
    and minW: "minW = Min (width ` set (concat all_images))"
    and no_swap: "(\<forall>f\<in>set (concat all_images). shape f = (minH, minW)) \<or> minH = minW"
  shows "\<exists>frames. concat_images all_images = Inr frames \<and> length frames = L \<and>
    (\<forall>c\<in>set frames. height c = minH \<and> width c = minW * length all_images)"
proof -
  define m where "m = min_shape all_images"
  define g where "g f = (if shape f = (minH, minW) then f
     else \<lparr>height = minW, width = minH, pix = Resampled (pix f)\<rparr>)" for f
  have g_shape: "height (g f) = minH \<and> width (g f) = minW"
    if "f \<in> set (concat all_images)" for f
    using that no_swap by (auto simp: g_def shape_def)
  have resize: "maybe_resize m f = Inr (g f)" if f: "f \<in> set (concat all_images)" for f
  proof -
    from f have ne: "concat all_images \<noteq> []" by (metis empty_iff empty_set)
    then have m: "m = Some (minH, minW)"
      by (simp add: m_def min_shape_eq minH minW)
    have "minH \<in> height ` set (concat all_images)" "minW \<in> width ` set (concat all_images)"
      unfolding minH minW using ne by (auto intro!: Min_in)
    with positive have pos: "0 < minH" "0 < minW" by auto
    from positive f have "0 < height f" "0 < width f" by auto
    with pos show ?thesis
      by (simp add: m g_def cv2_resize_def)
  qed
  have inner: "map_err (maybe_resize m) s = Inr (map g s)" if "s \<in> set all_images" for s
  proof (rule map_err_total)
    fix f assume "f \<in> set s"
    with that have "f \<in> set (concat all_images)" by auto
    then show "maybe_resize m f = Inr (g f)" by (rule resize)
  qed
  have outer: "map_err (map_err (maybe_resize m)) all_images = Inr (map (map g) all_images)"
    by (rule map_err_total) (rule inner)
  let ?resized = "map (map g) all_images"
  let ?N = "length all_images"
  have len: "length (zip_star ?resized) = L"
  proof -
    from nonempty obtain s0 where "s0 \<in> set all_images" by (cases all_images) auto
    with equal_length have "length ` set ?resized = {L}"
      by (auto simp: image_iff)
    with nonempty show ?thesis by (simp add: length_zip_star)
  qed
  have row: "np_concatenate_axis1 r =
      Inr \<lparr>height = minH, width = minW * ?N, pix = HStack (map pix r)\<rparr>"
    if r: "r \<in> set (zip_star ?resized)" for r
  proof -
    from zip_star_rows [OF r]
    have all2: "list_all2 (\<lambda>x xs. x \<in> set xs) r ?resized" .
    then have lr: "length r = ?N" by (simp add: list_all2_lengthD)
    with nonempty have "r \<noteq> []" by auto
    moreover have "height x = minH \<and> width x = minW" if "x \<in> set r" for x
    proof -
      from list_all2_setD1 [OF all2 that]
      obtain xs where "xs \<in> set ?resized" "x \<in> set xs" by blast
      then obtain s where "s \<in> set all_images" "x \<in> g ` set s" by auto
      then obtain f where "f \<in> set (concat all_images)" "x = g f" by auto
      with g_shape show ?thesis by simp
    qed
    ultimately show ?thesis
      using np_concatenate_axis1_uniform [of r minH minW] lr by simp
  qed
  let ?h = "\<lambda>r. \<lparr>height = minH, width = minW * ?N, pix = HStack (map pix r)\<rparr>"
  have "map_err np_concatenate_axis1 (zip_star ?resized) = Inr (map ?h (zip_star ?resized))"
    by (rule map_err_total) (rule row)
  with outer have "concat_images all_images = Inr (map ?h (zip_star ?resized))"
    by (simp add: concat_images_def m_def)
  moreover have "\<forall>c\<in>set (map ?h (zip_star ?resized)).
      height c = minH \<and> width c = minW * ?N"
    by simp
  ultimately show ?thesis using len by (intro exI [of _ "map ?h (zip_star ?resized)"]) simp
qed

text \<open>Two sequences of two frames each, of shapes \<open>(10, 10)\<close> and \<open>(8, 8)\<close>: both frames
  of the result have shape \<open>(8, 16)\<close>.\<close>

theorem concat_images_sizes_witness:
  "\<exists>frames.
      concat_images [[frame 10 10 ''a0'', frame 10 10 ''a1''], [frame 8 8 ''b0'', frame 8 8 ''b1'']]
        = Inr frames \<and>
      length frames = 2 \<and> list_all (\<lambda>c. height c = 8 \<and> width c = 16) frames"
  using concat_images_sizes
    [of "[[frame 10 10 ''a0'', frame 10 10 ''a1''], [frame 8 8 ''b0'', frame 8 8 ''b1'']]" 2 8 8]
  by (simp add: frame_def shape_def list_all_iff)

text \<open>
  The claim C1 as stated fails on its own example. With shapes \<open>(10, 10)\<close> and \<open>(8, 12)\<close>
  the minimum is \<open>(8, 10)\<close>; all four frames differ from it and are resized with
  \<^verbatim>\<open>cv2.resize(image, (min_height, min_width))\<close>, which OpenCV reads as width 8 and
  height 10. Each composite frame has shape \<open>(10, 16)\<close>, neither \<open>(8, 16)\<close> nor
  \<open>(minH, minW * 2) = (8, 20)\<close>.
\<close>

theorem concat_images_swapped_sizes:
  "concat_images [[frame 10 10 ''a0'', frame 10 10 ''a1''], [frame 8 12 ''b0'', frame 8 12 ''b1'']]
     = Inr [\<lparr>height = 10, width = 16,
              pix = HStack [Resampled (Decoded ''a0''), Resampled (Decoded ''b0'')]\<rparr>,
            \<lparr>height = 10, width = 16,
              pix = HStack [Resampled (Decoded ''a1''), Resampled (Decoded ''b1'')]\<rparr>]"
  by (simp add: concat_images_def min_shape_def frame_def shape_def cv2_resize_def
      np_concatenate_axis1_def)

text \<open>
  Claim C7 at the input \<open>[[8x10], [8x12, 8x12]]\<close> (one frame against two). The first frame
  has the minimum shape \<open>(8, 10)\<close> and is kept; the frames of the second sequence are
  resized to width 8 and height 10, so the first round of \<^verbatim>\<open>zip\<close> pairs heights 8
  and 10 and \<^verbatim>\<open>np.concatenate\<close> raises: no composite frame is produced, where the claim
  promises one. (Whenever \<open>concat_images\<close> does return, the number of frames is that of
  the shortest sequence: \<open>concat_images_length\<close>.)
\<close>

theorem concat_images_mixed_raises:
  "concat_images [[frame 8 10 ''a0''], [frame 8 12 ''b0'', frame 8 12 ''b1'']] = Inl ValueError"
  by (simp add: concat_images_def min_shape_def frame_def shape_def cv2_resize_def
      np_concatenate_axis1_def)

section \<open>Properties of \<^verbatim>\<open>load_images\<close>\<close>

text \<open>
  Claim C8, as amended. If some path of the list names no file (so that \<^verbatim>\<open>cv2.imread\<close>
  returns \<^verbatim>\<open>None\<close> for it), \<open>load_images\<close> fails with the OpenCV error raised by the
  colour conversion, and no image is returned. If every path names an image file, the
  result is the list of the decoded images, channel-swapped, one per path and in the
  order of the paths.
\<close>

theorem load_images_outcome:
  "((\<exists>p\<in>set image_fnames. imread p = None) \<longrightarrow>
       load_images imread image_fnames = Inl CvError) \<and>
   ((\<forall>p\<in>set image_fnames. imread p = Some (decoded p)) \<longrightarrow>
       load_images imread image_fnames =
         Inr (map (\<lambda>p. (decoded p)\<lparr>pix := SwapRB (pix (decoded p))\<rparr>) image_fnames))"
  using load_images_loop_missing [of _ image_fnames imread "[]"]
    load_images_loop_present [of image_fnames imread decoded "[]"]
  by (auto simp: load_images_def)

text \<open>A list whose second file is missing, and the same list with both files present.\<close>

theorem load_images_outcome_witness:
  "load_images [''a_00.jpg'' \<mapsto> frame 4 6 ''a_00.jpg''] [''a_00.jpg'', ''a_01.jpg''] = Inl CvError \<and>
   load_images [''a_00.jpg'' \<mapsto> frame 4 6 ''a_00.jpg'', ''a_01.jpg'' \<mapsto> frame 4 6 ''a_01.jpg'']
       [''a_00.jpg'', ''a_01.jpg''] =
     Inr [\<lparr>height = 4, width = 6, pix = SwapRB (Decoded ''a_00.jpg'')\<rparr>,
          \<lparr>height = 4, width = 6, pix = SwapRB (Decoded ''a_01.jpg'')\<rparr>]"
  using load_images_outcome
      [of "[''a_00.jpg'', ''a_01.jpg'']" "[''a_00.jpg'' \<mapsto> frame 4 6 ''a_00.jpg'']"
          "\<lambda>p. frame 4 6 p"]
    load_images_outcome
      [of "[''a_00.jpg'', ''a_01.jpg'']"
          "[''a_00.jpg'' \<mapsto> frame 4 6 ''a_00.jpg'', ''a_01.jpg'' \<mapsto> frame 4 6 ''a_01.jpg'']"
          "\<lambda>p. frame 4 6 p"]
  by (simp add: frame_def)

text \<open>
  The claim C8 as stated names the failure a FileNotFound error. No line of
  \<open>load_images\<close> checks that a file exists: the exception for a missing file is
  \<^verbatim>\<open>cv2.error\<close>, not \<^verbatim>\<open>FileNotFoundError\<close>.
\<close>

theorem load_images_missing_file:
  "load_images Map.empty [''missing_00.jpg''] = Inl CvError \<and>
   load_images Map.empty [''missing_00.jpg''] \<noteq> Inl FileNotFoundError"
  by (simp add: load_images_def cv2_cvtColor_BGR2RGB_def)

section \<open>Properties of \<^verbatim>\<open>load_metrics\<close>\<close>

text \<open>
  Claim C5. Let the file \<open>prefix.csv\<close> exist and hold a header row followed by the data
  rows, all rows with the same number \<open>n\<close> of cells, and let every cell of a data row
  other than its first and its last be a number. Then \<open>load_metrics\<close> returns the matrix
  with one row per data row, in order, holding the numbers of that row without its first
  and last cell: \<open>length data\<close> rows of \<open>n - 2\<close> columns.
\<close>

theorem load_metrics_matrix:
  assumes csv: "read_csv (prefix_fname @ ''.csv'') = Some (header # data)"
    and rect: "\<forall>r\<in>set (header # data). length r = n"
    and numeric: "\<forall>r\<in>set data. \<forall>c\<in>set (butlast (tl r)). float32 c \<noteq> None"
  shows "\<exists>metrics. load_metrics read_csv float32 prefix_fname = Inr metrics \<and>
    metrics = map (\<lambda>r. map (\<lambda>c. the (float32 c)) (butlast (tl r))) data \<and>
    length metrics = length data \<and> (\<forall>row\<in>set metrics. length row = n - 2)"
proof -
  have "list_all (\<lambda>r'. length r' = length header) data"
    using rect by (simp add: list_all_iff)
  then have arr: "np_array (header # data) = Inr (header # data)"
    by (simp add: np_array_def)
  have idx: "index_rows_cols (header # data) = Inr (map (\<lambda>r. butlast (tl r)) data)"
    by (simp add: index_rows_cols_def slice_from1_def slice_1_to_last_eq)
  have cell: "astype_float32 float32 c = Inr (the (float32 c))"
    if "r \<in> set data" and "c \<in> set (butlast (tl r))" for r c
    using numeric that by (auto simp: astype_float32_def split: option.splits)
  have row: "map_err (astype_float32 float32) cs = Inr (map (\<lambda>c. the (float32 c)) cs)"
    if "cs \<in> set (map (\<lambda>r. butlast (tl r)) data)" for cs
  proof (rule map_err_total)
    fix c assume "c \<in> set cs"
    with that obtain r where "r \<in> set data" "c \<in> set (butlast (tl r))" by auto
    then show "astype_float32 float32 c = Inr (the (float32 c))" by (rule cell)
  qed
  have "map_err (map_err (astype_float32 float32)) (map (\<lambda>r. butlast (tl r)) data) =
      Inr (map (map (\<lambda>c. the (float32 c))) (map (\<lambda>r. butlast (tl r)) data))"
    by (rule map_err_total) (rule row)
  with csv arr idx
  have "load_metrics read_csv float32 prefix_fname =
      Inr (map (\<lambda>r. map (\<lambda>c. the (float32 c)) (butlast (tl r))) data)"
    by (simp add: load_metrics_def comp_def)
  moreover have "length (butlast (tl r)) = n - 2" if "r \<in> set data" for r
    using rect that by simp
  ultimately show ?thesis by simp
qed


text \<open>A table with a header, three data rows and two metric columns between the id and
  the mean column: the result is the 3 by 2 matrix of the metric cells.\<close>

theorem load_metrics_matrix_witness:
  "load_metrics
     [''m/prediction/metrics/mse.csv'' \<mapsto>
        [[''id'', ''t0'', ''t1'', ''mean''],
         [''0'', ''1'', ''3'', ''2''],
         [''1'', ''2'', ''4'', ''3''],
         [''2'', ''5'', ''7'', ''6'']]]
     [''1'' \<mapsto> 1, ''2'' \<mapsto> 2, ''3'' \<mapsto> 3, ''4'' \<mapsto> 4, ''5'' \<mapsto> 5, ''7'' \<mapsto> 7]
     ''m/prediction/metrics/mse'' = Inr [[1, 3], [2, 4], [5, 7]]"
  using load_metrics_matrix
    [of "[''m/prediction/metrics/mse.csv'' \<mapsto>
        [[''id'', ''t0'', ''t1'', ''mean''],
         [''0'', ''1'', ''3'', ''2''],
         [''1'', ''2'', ''4'', ''3''],
         [''2'', ''5'', ''7'', ''6'']]]"
      "''m/prediction/metrics/mse''"
      "[''id'', ''t0'', ''t1'', ''mean'']"
      "[[''0'', ''1'', ''3'', ''2''], [''1'', ''2'', ''4'', ''3''], [''2'', ''5'', ''7'', ''6'']]"
      4
      "[''1'' \<mapsto> 1, ''2'' \<mapsto> 2, ''3'' \<mapsto> 3, ''4'' \<mapsto> 4, ''5'' \<mapsto> 5, ''7'' \<mapsto> 7]"]
  by simp

section \<open>Properties of method discovery\<close>

text \<open>
  Claim C6. For a directory listing (its names distinct, as \<^verbatim>\<open>os.listdir\<close> returns them),
  default discovery puts \<open>ground_truth\<close> first and \<open>repeat\<close> next, each only when it is
  listed, followed by all other candidates in lexicographic order. The entry \<open>web\<close>, the
  default place of the report, is no candidate and is left out.
\<close>

theorem default_method_dirs_order:
  assumes "distinct listing"
  shows "default_method_dirs listing =
     (if ''ground_truth'' \<in> set listing then [''ground_truth''] else []) @
     (if ''repeat'' \<in> set listing then [''repeat''] else []) @
     sort (filter (\<lambda>d. d \<notin> {''web'', ''ground_truth'', ''repeat''}) listing)"
proof -
  let ?u0 = "remove1 ''web'' listing"
  let ?u1 = "remove1 ''ground_truth'' ?u0"
  let ?u2 = "remove1 ''repeat'' ?u1"
  have u0: "(if ''web'' \<in> set listing then remove1 ''web'' listing else listing) = ?u0"
    by (simp add: remove1_idem)
  have d0: "distinct ?u0" and d1: "distinct ?u1" using assms by simp_all
  have u2: "?u2 = filter (\<lambda>d. d \<notin> {''web'', ''ground_truth'', ''repeat''}) listing"
    using assms d0 d1 by (simp add: remove1_filter conj_commute conj_left_commute)
  have g: "''ground_truth'' \<in> set ?u0 \<longleftrightarrow> ''ground_truth'' \<in> set listing"
    using assms by simp
  have r: "''repeat'' \<in> set ?u1 \<longleftrightarrow> ''repeat'' \<in> set listing"
    using assms d0 by simp
  have "default_method_dirs listing =
      ((if ''ground_truth'' \<in> set ?u0 then [''ground_truth''] else []) @
       (if ''repeat'' \<in> set ?u1 then [''repeat''] else [])) @ sort ?u2"
    unfolding default_method_dirs_def u0
    by (simp only: fold_simps front_step_eq Let_def prod.case append_Nil)
  then show ?thesis by (simp only: u2 g r append_assoc)
qed

text \<open>The listing \<open>b, ground_truth, a, repeat\<close> gives \<open>ground_truth, repeat, a, b\<close>.\<close>

theorem default_method_dirs_order_witness:
  "default_method_dirs [''b'', ''ground_truth'', ''a'', ''repeat''] =
     [''ground_truth'', ''repeat'', ''a'', ''b'']"
  using default_method_dirs_order [of "[''b'', ''ground_truth'', ''a'', ''repeat'']"]
  by (simp add: less_eq_char_def less_char_def)

section \<open>Properties of sorting\<close>

text \<open>
  Claim C4, as amended. Let there be \<open>n > 0\<close> methods (the pairs of a name and a
  directory), let the table of the chosen task and metric load for each of them, and let
  \<open>mean i\<close>, the value that \<^verbatim>\<open>np.mean\<close> returns for the table of the method of original index
  \<open>i\<close>, be no NaN. Then sorting succeeds; the indices it returns are a rearrangement of
  \<open>0, ..., n - 1\<close>; the means in the new order are ascending in Python's \<^verbatim>\<open><=\<close>; of two
  methods whose means are equal in Python's \<^verbatim>\<open>==\<close> the one with the smaller original index
  comes first; and at every new position the name and the directory are those of the
  method whose original index is reported there.
\<close>

theorem sort_methods_order:
  fixes mean :: "nat \<Rightarrow> np_float"
  assumes n: "n = min (length method_names) (length method_dirs)"
    and pos: "0 < n"
    and loaded: "\<forall>i<n. \<exists>metric.
        load_metrics read_csv float32
          (os_path_join4 (method_dirs ! i) task_name ''metrics'' metric_name) = Inr metric \<and>
        np_mean metric = mean i"
    and numbers: "\<forall>i<n. mean i \<noteq> NaN"
  shows "\<exists>sort_criterion method_ids names dirs.
      sort_methods read_csv float32 np_mean list_sort task_name metric_name method_names
          method_dirs =
        Inr (sort_criterion, method_ids, names, dirs) \<and>
      distinct method_ids \<and> set method_ids = {0..<n} \<and>
      sort_criterion = map mean method_ids \<and> sorted_wrt float_le sort_criterion \<and>
      (\<forall>j k. j < k \<and> k < n \<and> float_eq (mean (method_ids ! j)) (mean (method_ids ! k))
          \<longrightarrow> method_ids ! j < method_ids ! k) \<and>
      names = map (\<lambda>i. method_names ! i) method_ids \<and>
      dirs = map (\<lambda>i. method_dirs ! i) method_ids"
proof -
  let ?f = "sort_criterion_of read_csv float32 np_mean task_name metric_name"
  let ?ms = "zip method_names method_dirs"
  define tup where "tup i = (mean i, i, method_names ! i, method_dirs ! i)" for i
  have len_ms: "length ?ms = n" by (simp add: n)
  have crit_i: "?f (?ms ! i) = Inr (mean i)" if "i < n" for i
  proof -
    from loaded that obtain metric where
      "load_metrics read_csv float32
          (os_path_join4 (method_dirs ! i) task_name ''metrics'' metric_name) = Inr metric"
      "np_mean metric = mean i" by blast
    moreover have "?ms ! i = (method_names ! i, method_dirs ! i)"
      using that by (simp add: n)
    ultimately show ?thesis by (simp add: sort_criterion_of_def)
  qed
  have "list_all2 (\<lambda>x y. ?f x = Inr y) ?ms (map mean [0..<n])"
    unfolding list_all2_conv_all_nth using crit_i len_ms by simp
  then have crit: "map_err ?f ?ms = Inr (map mean [0..<n])"
    by (simp only: map_err_Inr_iff)
  have T: "zip (map mean [0..<n]) (zip [0..<length method_names] ?ms) = map tup [0..<n]"
    by (rule nth_equalityI) (simp_all add: n tup_def)
  have noNaN: "\<not> list_ex (\<lambda>t. fst t = NaN) (map tup [0..<n])"
    using numbers by (auto simp: list_ex_iff tup_def)
  define rows where "rows = sort_key sort_key_of (map tup [0..<n])"
  have len_rows: "length rows = n" by (simp add: rows_def)
  with pos have rows_ne: "rows \<noteq> []" by auto
  have set_rows: "set rows = tup ` {0..<n}" by (simp add: rows_def)
  have sorted_rows: "sorted (map sort_key_of rows)" by (simp add: rows_def)
  define ids where "ids = map (fst \<circ> snd) rows"
  have row_tup: "tup (fst (snd r)) = r" if "r \<in> set rows" for r
    using that set_rows by (auto simp: tup_def)
  have rows_ids: "rows = map tup ids"
    unfolding ids_def by (simp add: row_tup map_idI)
  have set_ids: "set ids = {0..<n}"
    unfolding ids_def using set_rows by (force simp: tup_def image_iff)
  have len_ids: "length ids = n" by (simp add: ids_def len_rows)
  with set_ids have dist: "distinct ids" by (simp add: card_distinct)
  have c1: "map fst rows = map mean ids"
    by (subst rows_ids) (simp add: tup_def comp_def)
  have c3: "map (fst \<circ> snd \<circ> snd) rows = map (\<lambda>i. method_names ! i) ids"
    by (subst rows_ids) (simp add: tup_def comp_def)
  have c4: "map (snd \<circ> snd \<circ> snd) rows = map (\<lambda>i. method_dirs ! i) ids"
    by (subst rows_ids) (simp add: tup_def comp_def)
  have key: "sort_key_of (rows ! j) = (float_key (mean (ids ! j)), snd (rows ! j))"
      and id_of: "fst (snd (rows ! j)) = ids ! j"
      and number: "mean (ids ! j) \<noteq> NaN" if "j < n" for j
  proof -
    have "ids ! j \<in> set ids" using that len_ids by simp
    then have "ids ! j < n" by (simp add: set_ids)
    then show "mean (ids ! j) \<noteq> NaN" using numbers by simp
    have "rows ! j = tup (ids ! j)"
      using rows_ids that len_ids by (metis nth_map)
    then show "sort_key_of (rows ! j) = (float_key (mean (ids ! j)), snd (rows ! j))"
      and "fst (snd (rows ! j)) = ids ! j"
      by (simp_all add: sort_key_of_def tup_def)
  qed
  have keys_le: "sort_key_of (rows ! j) \<le> sort_key_of (rows ! k)" if "j < k" "k < n" for j k
    using sorted_rows that len_rows by (simp add: sorted_iff_nth_mono)
  have srt: "sorted_wrt float_le (map mean ids)"
    unfolding sorted_wrt_iff_nth_less
  proof (intro allI impI)
    fix j k assume jk: "j < k" and "k < length (map mean ids)"
    then have k: "k < n" and j: "j < n" by (simp_all add: len_ids)
    from fst_mono_lex [OF keys_le [OF jk k]]
    have "float_key (mean (ids ! j)) \<le> float_key (mean (ids ! k))"
      by (simp add: key j k)
    then have "float_le (mean (ids ! j)) (mean (ids ! k))"
      by (simp add: float_key_le number j k)
    then show "float_le (map mean ids ! j) (map mean ids ! k)"
      using j k len_ids by simp
  qed
  have ties: "ids ! j < ids ! k"
    if "j < k" "k < n" "float_eq (mean (ids ! j)) (mean (ids ! k))" for j k
  proof -
    have jn: "j < n" using that by simp
    have "float_key (mean (ids ! j)) = float_key (mean (ids ! k))"
      using that(3) by (simp add: float_key_eq number jn that(2))
    then have "fst (sort_key_of (rows ! j)) = fst (sort_key_of (rows ! k))"
      by (simp add: key jn that(2))
    from snd_mono_lex [OF keys_le [OF that(1,2)] this]
    have "snd (rows ! j) \<le> snd (rows ! k)" by (simp add: key jn that(2))
    from fst_mono_lex [OF this] have "ids ! j \<le> ids ! k"
      by (simp add: id_of jn that(2))
    moreover have "ids ! j \<noteq> ids ! k"
      using dist that jn len_ids by (simp add: nth_eq_iff_index_eq)
    ultimately show ?thesis by simp
  qed
  have "sort_methods read_csv float32 np_mean list_sort task_name metric_name method_names
        method_dirs =
      Inr (map fst rows, ids, map (fst \<circ> snd \<circ> snd) rows, map (snd \<circ> snd \<circ> snd) rows)"
    unfolding sort_methods_def crit sum.case T
    using noNaN rows_ne by (simp add: py_sorted_def rows_def ids_def Let_def)
  with dist set_ids srt ties show ?thesis
    by (simp only: c1 c3 c4) blast
qed

text \<open>The cells \<^verbatim>\<open>0.5\<close>, \<^verbatim>\<open>0.2\<close>, \<^verbatim>\<open>0.2\<close> at the original indices \<open>0, 1, 2\<close>: the new order is
  \<open>1, 2, 0\<close>.\<close>

theorem sort_methods_order_witness:
  "sort_methods three_methods_csv decimal_cells single_cell_mean unconsulted_sort
      ''prediction'' ''mse'' [''a'', ''b'', ''c''] [''r/a'', ''r/b'', ''r/c''] =
     Inr ([Finite (13421773 / 67108864), Finite (13421773 / 67108864), Finite 0.5],
          [1, 2, 0], [''b'', ''c'', ''a''], [''r/b'', ''r/c'', ''r/a''])"
  using sort_methods_order [of 3 "[''a'', ''b'', ''c'']" "[''r/a'', ''r/b'', ''r/c'']"
      three_methods_csv decimal_cells "''prediction''" "''mse''" single_cell_mean
      "\<lambda>i. if i = 0 then Finite 0.5 else Finite (13421773 / 67108864)" unconsulted_sort]
  by (simp add: sort_eval three_methods_csv_def)

text \<open>
  The claim C4 as stated covers every list of methods. With no method at all (an empty
  results directory), \<^verbatim>\<open>zip(*sorted(...))\<close> yields nothing, and unpacking it into the four
  names of line 155 raises. With the cells \<^verbatim>\<open>0.5\<close>, \<^verbatim>\<open>nan\<close>, \<^verbatim>\<open>0.2\<close> no tuple is smaller than
  its predecessor, the order stays \<open>0, 1, 2\<close>, and the mean 0.5 comes before the smaller
  mean of the cell \<^verbatim>\<open>0.2\<close>.
\<close>

theorem sort_methods_not_ascending:
  "sort_methods three_methods_csv decimal_cells single_cell_mean unconsulted_sort
      ''prediction'' ''mse'' [] [] = Inl ValueError \<and>
   sort_methods nan_method_csv decimal_cells single_cell_mean unconsulted_sort
      ''prediction'' ''mse'' [''a'', ''b'', ''c''] [''r/a'', ''r/b'', ''r/c''] =
     Inr ([Finite 0.5, NaN, Finite (13421773 / 67108864)],
          [0, 1, 2], [''a'', ''b'', ''c''], [''r/a'', ''r/b'', ''r/c''])"
  by (simp add: sort_eval nan_method_csv_def ascending_run_def tuple_lt_def)

section \<open>Properties of \<^verbatim>\<open>main\<close>\<close>

text \<open>
  Claim C10. Take a run that builds the image table to its end: \<open>main\<close> returns and
  \<^verbatim>\<open>--only_metrics\<close> is not set. Then at least one table file was read while the metrics
  table was built, and the image rows of the report carry the sample indices
  \<open>0, ..., n - 1\<close> in this order, where \<open>n\<close> is the number of rows of the matrix read last:
  that of the last method in table order and of the last pair of a task and a metric. The
  count comes from no image file.
\<close>

theorem main_sample_range:
  assumes run: "main env args = Inr webpage" and images: "\<not> args_only_metrics args"
  shows "\<exists>method_names method_dirs method_ids sorted_names sorted_dirs w0 w1
      task_names metric_names metric.
    discover_methods env args = Inr (method_names, method_dirs) \<and>
    sort_block env args method_names method_dirs w0 =
      Inr (Some method_ids, sorted_names, sorted_dirs, w1) \<and>
    infer_metric_names env sorted_dirs = Inr (task_names, metric_names) \<and>
    zip method_ids (zip sorted_names sorted_dirs) \<noteq> [] \<and>
    zip task_names metric_names \<noteq> [] \<and>
    load_metrics (env_read_csv env) (env_float32 env)
      (last_table_file (zip method_ids (zip sorted_names sorted_dirs))
         (zip task_names metric_names)) = Inr metric \<and>
    sample_inds webpage = [0..<length metric]"
proof -
  define web_dir where "web_dir =
    (case args_web_dir args of
       None \<Rightarrow> os_path_join (args_results_dir args) ''web'' | Some given \<Rightarrow> given)"
  define w0 where "w0 =
    [NewPage web_dir (''Experiment name = '' @ env_normpath env (args_results_dir args)),
     AddHeader1 (env_normpath env (args_results_dir args))]"
  from run images obtain method_names method_dirs ids sorted_names sorted_dirs w1
      task_names metric_names w2 ns where
    d: "discover_methods env args = Inr (method_names, method_dirs)"
    and s: "sort_block env args method_names method_dirs w0 = Inr (ids, sorted_names, sorted_dirs, w1)"
    and i: "infer_metric_names env sorted_dirs = Inr (task_names, metric_names)"
    and t: "metrics_table env args ids sorted_names sorted_dirs task_names metric_names w1 =
        Inr (w2, ns)"
    and a: "image_aggregation env args ids sorted_names sorted_dirs web_dir ns w2 = Inr webpage"
    unfolding main_def Let_def web_dir_def [symmetric] w0_def [symmetric]
    by (auto split: sum.splits prod.splits)
  let ?rows = "\<lambda>method_ids. zip method_ids (zip sorted_names sorted_dirs)"
  let ?pairs = "zip task_names metric_names"
  from t obtain method_ids w3 w4 amm where
    ids: "ids = Some method_ids"
    and tab: "fold_err (method_row env (args_show_se args) task_names metric_names)
        (?rows method_ids) (w1 @ w3, [], None) = Inr (w4, amm, ns)"
    and w3: "sample_inds w3 = []"
    and w2: "w2 = w4 @ [Save]"
    unfolding metrics_table_def Let_def
    by (auto simp: sample_inds_def split: prod.splits option.splits sum.splits)
  from a obtain n w5 h5 tasks where
    ns: "ns = Some n"
    and loop: "fold_err (sample_images env args ids sorted_names sorted_dirs
          (os_path_join web_dir ''images'') tasks) [0..<n]
        (w2 @ [AddTable],
         \<lparr>ims = [], txts = [], links = [], header_txts = [''''], subheader_txts = [''id''],
          header_colspans = [1], subheader_colspans = [1]\<rparr>) = Inr (w5, h5)"
    and webpage: "webpage = w5 @ [Save]"
    unfolding image_aggregation_def
    by (auto split: sum.splits option.splits prod.splits)
  have w1: "sample_inds w1 = []"
    using s by (auto simp: sort_block_def w0_def sample_inds_def split: option.splits sum.splits)
  have "sample_inds w4 = sample_inds (w1 @ w3)"
    using tab by (rule method_row_events)
  with w1 w3 have "sample_inds w2 = []"
    by (simp add: w2 sample_inds_append) (simp add: sample_inds_def)
  moreover have "sample_inds w5 = sample_inds (w2 @ [AddTable]) @ [0..<n]"
    using loop by (rule samples_events)
  ultimately have inds: "sample_inds webpage = [0..<n]"
    by (simp add: webpage sample_inds_append) (simp add: sample_inds_def)
  have nonempty: "?rows method_ids \<noteq> [] \<and> ?pairs \<noteq> []"
  proof (rule ccontr)
    assume "\<not> ?thesis"
    then have "?rows method_ids = [] \<or> ?pairs = []" by blast
    from method_row_unbound [OF tab this] ns show False by simp
  qed
  with method_row_last [OF tab] ns obtain metric where
    "load_metrics (env_read_csv env) (env_float32 env)
        (last_table_file (?rows method_ids) ?pairs) = Inr metric"
    and "n = length metric"
    by auto
  with d s i ids nonempty inds show ?thesis by blast
qed

text \<open>The small world with \<^verbatim>\<open>--sort_by prediction mse\<close>: the run returns its report, whose
  one image row is that of sample 0; the only table has one data row.\<close>

theorem main_sample_range_witness:
  "\<exists>webpage. main small_world sorted_run = Inr webpage \<and> sample_inds webpage = [0..<1]"
  using main_sample_range [OF small_world_sorted_run] small_world_sorted_run
  by (simp add: small_world_fields sample_inds_def sorted_report_def)

text \<open>
  Claim C2 at the command line \<^verbatim>\<open>combine_results.py r\<close> in the small world, where no
  directory or file is missing, every table cell is a number and the encoders succeed.
  Without \<^verbatim>\<open>--sort_by\<close> nothing assigns \<^verbatim>\<open>method_ids\<close>, and line 189 reads it: the run ends
  with \<^verbatim>\<open>UnboundLocalError\<close> (a \<^verbatim>\<open>NameError\<close>) and exit status 1, before any row of the
  table and before the flush of line 203. The same holds in every world
  (\<open>main_without_sort_by\<close>), while the sorted run of the same world returns
  (\<open>small_world_sorted_run\<close>).
\<close>

theorem main_default_run_raises:
  "main small_world default_run = Inl NameError \<and> exit_status (main small_world default_run) = 1"
  by (simp add: main_def small_world_discover small_world_sort small_world_metric_names
      small_world_table small_world_fields os_path_join_def exit_status_def)

end
